theory Spec2Isabelle
  imports Complex_Main "HOL-Library.Word"
begin

section \<open>BIT* planner core (BITstar.cpp): a shallow embedding\<close>

text \<open>
  The theory embeds the member functions of \<^verbatim>\<open>ompl::geometric::BITstar\<close> as functions over an
  explicit planner record and an explicit store of the objects the planner only holds pointers to
  (vertices, the integrated queue, the two nearest-neighbour structures, the sampler, the problem
  definition). The classes of those objects are not part of BITstar.cpp; their member functions
  are parameters of the model, collected in the record \<open>env\<close>.

  A call of such a member function returns normally: the exceptions of the model are the ones
  BITstar.cpp raises itself and the one of \<^verbatim>\<open>Planner::checkValidity()\<close>. What is written to
  the log is left out. \<^verbatim>\<open>statusMessage\<close> asks the queue and the nearest-neighbour structures
  for their sizes when it builds a message, which it does at the log level \<^verbatim>\<open>LOG_DEBUG\<close> only;
  the model is of a run at a higher log level, where it returns at once.
\<close>

subsection \<open>C++ \<^verbatim>\<open>double\<close>\<close>

text \<open>
  A \<^verbatim>\<open>double\<close> is a real number, one of the two infinities, or not-a-number. The arithmetic
  follows IEEE 754 on these four kinds of value. The operations \<open>dadd\<close>, \<open>dsub\<close>, \<open>dmul\<close> and
  \<open>ddiv\<close> give the exact result of an operation on finite values; the rounded operations of
  the machine follow below. A literal such as \<^verbatim>\<open>1.1\<close> is the real number it writes, and the
  two zeros are one value (a division by zero takes the zero as positive).
\<close>

datatype double = NaN | NegInf | Fin real | PosInf

fun dless :: "double \<Rightarrow> double \<Rightarrow> bool" where
  "dless NaN _ = False"
| "dless _ NaN = False"
| "dless NegInf NegInf = False"
| "dless NegInf _ = True"
| "dless (Fin x) (Fin y) = (x < y)"
| "dless (Fin x) PosInf = True"
| "dless (Fin x) NegInf = False"
| "dless PosInf _ = False"

fun dneg :: "double \<Rightarrow> double" where
  "dneg NaN = NaN"
| "dneg NegInf = PosInf"
| "dneg (Fin x) = Fin (- x)"
| "dneg PosInf = NegInf"

fun dabs :: "double \<Rightarrow> double" where
  "dabs NaN = NaN"
| "dabs NegInf = PosInf"
| "dabs (Fin x) = Fin \<bar>x\<bar>"
| "dabs PosInf = PosInf"

fun dadd :: "double \<Rightarrow> double \<Rightarrow> double" where
  "dadd NaN _ = NaN"
| "dadd _ NaN = NaN"
| "dadd (Fin x) (Fin y) = Fin (x + y)"
| "dadd PosInf NegInf = NaN"
| "dadd NegInf PosInf = NaN"
| "dadd PosInf _ = PosInf"
| "dadd NegInf _ = NegInf"
| "dadd (Fin x) PosInf = PosInf"
| "dadd (Fin x) NegInf = NegInf"

definition dsub :: "double \<Rightarrow> double \<Rightarrow> double" where
  "dsub a b = dadd a (dneg b)"

fun dmul :: "double \<Rightarrow> double \<Rightarrow> double" where
  "dmul NaN _ = NaN"
| "dmul _ NaN = NaN"
| "dmul (Fin x) (Fin y) = Fin (x * y)"
| "dmul (Fin x) PosInf = (if x = 0 then NaN else if 0 < x then PosInf else NegInf)"
| "dmul (Fin x) NegInf = (if x = 0 then NaN else if 0 < x then NegInf else PosInf)"
| "dmul PosInf (Fin y) = (if y = 0 then NaN else if 0 < y then PosInf else NegInf)"
| "dmul NegInf (Fin y) = (if y = 0 then NaN else if 0 < y then NegInf else PosInf)"
| "dmul PosInf PosInf = PosInf"
| "dmul PosInf NegInf = NegInf"
| "dmul NegInf PosInf = NegInf"
| "dmul NegInf NegInf = PosInf"

fun ddiv :: "double \<Rightarrow> double \<Rightarrow> double" where
  "ddiv NaN _ = NaN"
| "ddiv _ NaN = NaN"
| "ddiv (Fin x) (Fin y) =
     (if y = 0 then (if x = 0 then NaN else if 0 < x then PosInf else NegInf)
      else Fin (x / y))"
| "ddiv (Fin x) PosInf = Fin 0"
| "ddiv (Fin x) NegInf = Fin 0"
| "ddiv PosInf (Fin y) = (if 0 \<le> y then PosInf else NegInf)"
| "ddiv NegInf (Fin y) = (if 0 \<le> y then NegInf else PosInf)"
| "ddiv PosInf _ = NaN"
| "ddiv NegInf _ = NaN"

text \<open>
  \<^verbatim>\<open>std::ceil\<close>, whose result is exact, and the logarithm and the power with the special cases
  of the C standard and the exact value otherwise: what \<^verbatim>\<open>std::log\<close> and \<^verbatim>\<open>std::pow\<close> would
  return on a machine that does not round.
\<close>

fun dlog :: "double \<Rightarrow> double" where
  "dlog NaN = NaN"
| "dlog NegInf = NaN"
| "dlog (Fin x) = (if x < 0 then NaN else if x = 0 then NegInf else Fin (ln x))"
| "dlog PosInf = PosInf"

fun dceil :: "double \<Rightarrow> double" where
  "dceil (Fin x) = Fin (of_int \<lceil>x\<rceil>)"
| "dceil d = d"

definition is_int :: "real \<Rightarrow> bool" where
  "is_int b = (of_int \<lfloor>b\<rfloor> = b)"

definition is_odd_int :: "real \<Rightarrow> bool" where
  "is_odd_int b = (is_int b \<and> odd \<lfloor>b\<rfloor>)"

fun dpow :: "double \<Rightarrow> double \<Rightarrow> double" where
  "dpow x (Fin b) =
     (if b = 0 then Fin 1
      else (case x of
          NaN \<Rightarrow> NaN
        | Fin a \<Rightarrow>
            (if 0 < a then Fin (a powr b)
             else if a = 0 then (if 0 < b then Fin 0 else PosInf)
             else if is_odd_int b then Fin (- (\<bar>a\<bar> powr b))
             else if is_int b then Fin (\<bar>a\<bar> powr b)
             else NaN)
        | PosInf \<Rightarrow> (if b < 0 then Fin 0 else PosInf)
        | NegInf \<Rightarrow> (if b < 0 then Fin 0 else if is_odd_int b then NegInf else PosInf)))"
| "dpow x NaN = (if x = Fin 1 then Fin 1 else NaN)"
| "dpow x PosInf =
     (case x of
        NaN \<Rightarrow> NaN
      | Fin a \<Rightarrow> (if \<bar>a\<bar> < 1 then Fin 0 else if \<bar>a\<bar> = 1 then Fin 1 else PosInf)
      | _ \<Rightarrow> PosInf)"
| "dpow x NegInf =
     (case x of
        NaN \<Rightarrow> NaN
      | Fin a \<Rightarrow> (if \<bar>a\<bar> < 1 then PosInf else if \<bar>a\<bar> = 1 then Fin 1 else Fin 0)
      | _ \<Rightarrow> Fin 0)"

text \<open>
  The arithmetic of the machine. An operation on two values of type \<^verbatim>\<open>double\<close> returns its
  exact result rounded to a \<^verbatim>\<open>double\<close>; an infinite or undefined result is not rounded.
  The rounding \<open>fp_round\<close> (which may overflow to an infinity), \<^verbatim>\<open>std::log\<close> and \<^verbatim>\<open>std::pow\<close> of
  the C library, whose accuracy the C standard leaves open, and the constant
  \<^verbatim>\<open>boost::math::constants::e<double>()\<close> are parameters of the model. The connection radius and
  the neighbour count are computed with them. The fractional change of \<^verbatim>\<open>prune\<close> and the sample
  density are left as the exact quotients.
\<close>

record machine =
  fp_round :: "real \<Rightarrow> double"
  std_log :: "double \<Rightarrow> double"
  std_pow :: "double \<Rightarrow> double \<Rightarrow> double"
  e_double :: double

definition rounded :: "'a machine_scheme \<Rightarrow> double \<Rightarrow> double" where
  "rounded env d = (case d of Fin x \<Rightarrow> fp_round env x | _ \<Rightarrow> d)"

definition fadd :: "'a machine_scheme \<Rightarrow> double \<Rightarrow> double \<Rightarrow> double" where
  "fadd env a b = rounded env (dadd a b)"

definition fmul :: "'a machine_scheme \<Rightarrow> double \<Rightarrow> double \<Rightarrow> double" where
  "fmul env a b = rounded env (dmul a b)"

definition fdiv :: "'a machine_scheme \<Rightarrow> double \<Rightarrow> double \<Rightarrow> double" where
  "fdiv env a b = rounded env (ddiv a b)"

text \<open>
  Conversions between \<^verbatim>\<open>unsigned int\<close> (32 bits) and \<^verbatim>\<open>double\<close>. The conversion of a
  \<^verbatim>\<open>double\<close> to \<^verbatim>\<open>unsigned int\<close> truncates towards zero; C++ leaves it undefined when the
  truncated value is not in \<open>[0, 2^32)\<close>, where the model wraps a finite value and gives 0 for the
  others.
\<close>

definition double_of_uint :: "32 word \<Rightarrow> double" where
  "double_of_uint n = Fin (real (unat n))"

definition uint_of_double :: "double \<Rightarrow> 32 word" where
  "uint_of_double d =
     (case d of Fin x \<Rightarrow> word_of_int (if 0 \<le> x then \<lfloor>x\<rfloor> else \<lceil>x\<rceil>) | _ \<Rightarrow> 0)"

subsection \<open>The planner's data members\<close>

type_synonym ptr = nat
  \<comment> \<open>the address of an object the planner shares with other code\<close>
type_synonym VertexPtr = nat
  \<comment> \<open>a non-null \<^verbatim>\<open>boost::shared_ptr<Vertex>\<close>; a pointer that may be null is a \<open>VertexPtr option\<close>\<close>
type_synonym vertex_pair_t = "VertexPtr \<times> VertexPtr"
type_synonym cost = double
  \<comment> \<open>\<^verbatim>\<open>ompl::base::Cost\<close> wraps a double\<close>

text \<open>
  The members of \<^verbatim>\<open>BITstar\<close> in the order of the constructor's initialiser list, after the two
  members of the base class \<^verbatim>\<open>Planner\<close> that BITstar.cpp reads or writes (\<^verbatim>\<open>pdef_\<close>,
  \<^verbatim>\<open>setup_\<close>). A trailing underscore is not an Isabelle name, so \<^verbatim>\<open>bestCost_\<close> is \<open>bestCost\<close>;
  \<^verbatim>\<open>r_\<close>, \<^verbatim>\<open>k_\<close> and \<^verbatim>\<open>setup_\<close> are \<open>r_member\<close>, \<open>k_member\<close> and \<open>setup_flag\<close>.
  A smart pointer is \<open>None\<close> when empty.
\<close>

record BITstar =
  pdef :: "ptr option"
  setup_flag :: bool
  sampler :: "ptr option"
  opt :: "ptr option"
  startVertex :: "VertexPtr option"
  goalVertex :: "VertexPtr option"
  freeStateNN :: "ptr option"
  vertexNN :: "ptr option"
  intQueue :: "ptr option"
  sampleDensity :: double
  r_member :: double
  k_rgg :: double
  k_member :: "32 word"
  bestCost :: cost
  prunedCost :: cost
  minCost :: cost
  costSampled :: cost
  hasSolution :: bool
  approximateSoln :: bool
  approximateDiff :: double
  numIterations :: "32 word"
  numBatches :: "32 word"
  numPrunings :: "32 word"
  numSamples :: "32 word"
  numVertices :: "32 word"
  numFreeStatesPruned :: "32 word"
  numVerticesDisconnected :: "32 word"
  numRewirings :: "32 word"
  numStateCollisionChecks :: "32 word"
  numEdgeCollisionChecks :: "32 word"
  numNearestNeighbours :: "32 word"
  useStrictQueueOrdering :: bool
  rewireFactor :: double
  samplesPerBatch :: "32 word"
  useFailureTracking :: bool
  useKNearest :: bool
  usePruning :: bool
  pruneFraction :: double
  stopOnSolnChange :: bool


text \<open>
  The members after dereferencing: the member functions below take them as the parameter \<open>m\<close>,
  since dereferencing an empty smart pointer is undefined. \<open>dereferenced\<close> reads them from a planner
  whose pointers are all set, as they are after a successful \<^verbatim>\<open>setup()\<close>.
\<close>

record members =
  m_pdef :: ptr
  m_sampler :: ptr
  m_opt :: ptr
  m_startVertex :: VertexPtr
  m_goalVertex :: VertexPtr
  m_freeStateNN :: ptr
  m_vertexNN :: ptr
  m_intQueue :: ptr

definition dereferenced :: "BITstar \<Rightarrow> members option" where
  "dereferenced p =
     (if pdef p = None \<or> sampler p = None \<or> opt p = None \<or> startVertex p = None
         \<or> goalVertex p = None \<or> freeStateNN p = None \<or> vertexNN p = None \<or> intQueue p = None
      then None
      else Some \<lparr>m_pdef = the (pdef p), m_sampler = the (sampler p), m_opt = the (opt p),
                 m_startVertex = the (startVertex p), m_goalVertex = the (goalVertex p),
                 m_freeStateNN = the (freeStateNN p), m_vertexNN = the (vertexNN p),
                 m_intQueue = the (intQueue p)\<rparr>)"

text \<open>What ends a call abnormally: an \<^verbatim>\<open>ompl::Exception\<close> with its message, or the
  dereference of a null pointer.\<close>

datatype abort = Exception string | NullDereference

subsection \<open>The objects behind the pointers\<close>

text \<open>
  \<open>'w\<close> is the store holding every object the planner points to, \<open>'s\<close> is a non-null
  \<^verbatim>\<open>ompl::base::State*\<close> (a \<open>'s option\<close> may be \<^verbatim>\<open>NULL\<close>). Each record below lists the member
  functions of one class that BITstar.cpp calls; a function that changes its object returns the new
  store. \<^verbatim>\<open>Planner::si_\<close> is never null and needs no address.
\<close>

record ('w, 's) SpaceInformation = machine +
  si_distance :: "'w \<Rightarrow> 's option \<Rightarrow> 's option \<Rightarrow> double"
  si_checkMotion :: "'w \<Rightarrow> 's option \<Rightarrow> 's option \<Rightarrow> bool"
  si_isValid :: "'w \<Rightarrow> 's option \<Rightarrow> bool"
  si_copyState :: "'s option \<Rightarrow> 's option \<Rightarrow> 'w \<Rightarrow> 'w"
  si_getStateDimension :: "'w \<Rightarrow> 32 word"
  si_getSpaceMeasure :: "'w \<Rightarrow> double"
  unitNBallMeasure :: "32 word \<Rightarrow> double"
    \<comment> \<open>\<^verbatim>\<open>ompl::ProlateHyperspheroid::unitNBallMeasure\<close>\<close>

record ('w, 's) OptimizationObjective = "('w, 's) SpaceInformation" +
  opt_isSatisfied :: "ptr \<Rightarrow> 'w \<Rightarrow> cost \<Rightarrow> bool"
  opt_combineCosts :: "ptr \<Rightarrow> cost \<Rightarrow> cost \<Rightarrow> cost"
  opt_combineCosts3 :: "ptr \<Rightarrow> cost \<Rightarrow> cost \<Rightarrow> cost \<Rightarrow> cost"
  opt_motionCost :: "ptr \<Rightarrow> 'w \<Rightarrow> 's option \<Rightarrow> 's option \<Rightarrow> cost"
  opt_motionCostHeuristic :: "ptr \<Rightarrow> 'w \<Rightarrow> 's option \<Rightarrow> 's option \<Rightarrow> cost"
  opt_infiniteCost :: "ptr \<Rightarrow> cost"
  opt_allocInformedStateSampler :: "ptr \<Rightarrow> ptr \<Rightarrow> 'w \<Rightarrow> ptr \<times> 'w"

text \<open>The informed sampler holds the address of \<^verbatim>\<open>bestCost_\<close> and reads it when it samples or
  measures; the model passes the current \<open>bestCost\<close> at each call.\<close>

record ('w, 's) InformedStateSampler = "('w, 's) OptimizationObjective" +
  sm_sampleUniform :: "ptr \<Rightarrow> cost \<Rightarrow> 's option \<Rightarrow> 'w \<Rightarrow> 'w"
  sm_hasInformedMeasure :: "ptr \<Rightarrow> 'w \<Rightarrow> bool"
  sm_getInformedMeasure :: "ptr \<Rightarrow> cost \<Rightarrow> 'w \<Rightarrow> double"

text \<open>The only distance function BITstar.cpp installs in a nearest-neighbour structure is
  \<^verbatim>\<open>boost::bind(&BITstar::nnDistance, this, _1, _2)\<close>.\<close>

datatype distance_function = NnDistance

record ('w, 's) NearestNeighbors = "('w, 's) InformedStateSampler" +
  getDefaultNearestNeighbors :: "'w \<Rightarrow> ptr \<times> 'w"
  nn_setDistanceFunction :: "ptr \<Rightarrow> distance_function \<Rightarrow> 'w \<Rightarrow> 'w"
  nn_add :: "ptr \<Rightarrow> VertexPtr \<Rightarrow> 'w \<Rightarrow> 'w"
  nn_remove :: "ptr \<Rightarrow> VertexPtr \<Rightarrow> 'w \<Rightarrow> 'w"
  nn_clear :: "ptr \<Rightarrow> 'w \<Rightarrow> 'w"
  nn_list :: "ptr \<Rightarrow> 'w \<Rightarrow> VertexPtr list"
  nn_size :: "ptr \<Rightarrow> 'w \<Rightarrow> nat"
  nn_nearestK :: "ptr \<Rightarrow> VertexPtr \<Rightarrow> 32 word \<Rightarrow> 'w \<Rightarrow> VertexPtr list"
  nn_nearestR :: "ptr \<Rightarrow> VertexPtr \<Rightarrow> double \<Rightarrow> 'w \<Rightarrow> VertexPtr list"

text \<open>\<open>v_new opt root\<close> is \<^verbatim>\<open>boost::make_shared<Vertex>(si_, opt_, root)\<close>. In the functions that
  change a vertex the first argument is the vertex the member function is called on.\<close>

record ('w, 's) Vertex = "('w, 's) NearestNeighbors" +
  v_new :: "ptr \<Rightarrow> bool \<Rightarrow> 'w \<Rightarrow> VertexPtr \<times> 'w"
  v_state :: "'w \<Rightarrow> VertexPtr \<Rightarrow> 's option"
  v_getCost :: "'w \<Rightarrow> VertexPtr \<Rightarrow> cost"
  v_hasParent :: "'w \<Rightarrow> VertexPtr \<Rightarrow> bool"
  v_isRoot :: "'w \<Rightarrow> VertexPtr \<Rightarrow> bool"
  v_isConnected :: "'w \<Rightarrow> VertexPtr \<Rightarrow> bool"
  v_getParent :: "'w \<Rightarrow> VertexPtr \<Rightarrow> VertexPtr option"
  v_addChild :: "VertexPtr \<Rightarrow> VertexPtr \<Rightarrow> bool \<Rightarrow> 'w \<Rightarrow> 'w"
  v_removeChild :: "VertexPtr \<Rightarrow> VertexPtr \<Rightarrow> bool \<Rightarrow> 'w \<Rightarrow> 'w"
  v_addParent :: "VertexPtr \<Rightarrow> VertexPtr \<Rightarrow> cost \<Rightarrow> bool \<Rightarrow> 'w \<Rightarrow> 'w"
  v_removeParent :: "VertexPtr \<Rightarrow> bool \<Rightarrow> 'w \<Rightarrow> 'w"
  v_markAsFailedChild :: "VertexPtr \<Rightarrow> VertexPtr \<Rightarrow> 'w \<Rightarrow> 'w"
  v_markNew :: "VertexPtr \<Rightarrow> 'w \<Rightarrow> 'w"


text \<open>
  The integrated queue is built in \<^verbatim>\<open>setup()\<close> with the planner's \<^verbatim>\<open>nearestSamples\<close> and
  \<^verbatim>\<open>nearestVertices\<close> bound as callbacks (and five heuristics, which change nothing). A call
  into the queue is therefore a dialogue: the queue either finishes with a result and a store, or
  asks the planner for the neighbours of a vertex and goes on with the answer. These callbacks are
  the only way in which the queue reaches the planner's members.
\<close>

datatype ('w, 'a) queue_call =
    Done 'a 'w
  | NearestSamples VertexPtr 'w "VertexPtr list \<Rightarrow> 'w \<Rightarrow> ('w, 'a) queue_call"
  | NearestVertices VertexPtr 'w "VertexPtr list \<Rightarrow> 'w \<Rightarrow> ('w, 'a) queue_call"

text \<open>\<open>q_new start goal\<close> is \<^verbatim>\<open>boost::make_shared<IntegratedQueue>(startVertex_, goalVertex_, ...)\<close>.
  \<open>q_prune\<close> and \<open>q_resort\<close> take the queue, then \<^verbatim>\<open>vertexNN_\<close>, then \<^verbatim>\<open>freeStateNN_\<close>.
  \<open>q_clear\<close> and \<open>q_setUseFailureTracking\<close> are called where the callbacks cannot be (the planner's
  pointers are reset or not yet all set), so they are plain functions of the store.\<close>

record ('w, 's) IntegratedQueue = "('w, 's) Vertex" +
  q_new :: "VertexPtr \<Rightarrow> VertexPtr \<Rightarrow> 'w \<Rightarrow> ptr \<times> 'w"
  q_setUseFailureTracking :: "ptr \<Rightarrow> bool \<Rightarrow> 'w \<Rightarrow> 'w"
  q_clear :: "ptr \<Rightarrow> 'w \<Rightarrow> 'w"
  q_isEmpty :: "ptr \<Rightarrow> 'w \<Rightarrow> ('w, bool) queue_call"
  q_isSorted :: "ptr \<Rightarrow> 'w \<Rightarrow> ('w, bool) queue_call"
  q_popFrontEdge :: "ptr \<Rightarrow> 'w \<Rightarrow> ('w, vertex_pair_t) queue_call"
  q_frontEdge :: "ptr \<Rightarrow> 'w \<Rightarrow> ('w, vertex_pair_t) queue_call"
  q_frontEdgeValue :: "ptr \<Rightarrow> 'w \<Rightarrow> ('w, cost \<times> cost) queue_call"
  q_reset :: "ptr \<Rightarrow> 'w \<Rightarrow> ('w, unit) queue_call"
  q_finish :: "ptr \<Rightarrow> 'w \<Rightarrow> ('w, unit) queue_call"
  q_setThreshold :: "ptr \<Rightarrow> cost \<Rightarrow> 'w \<Rightarrow> ('w, unit) queue_call"
  q_insertVertex :: "ptr \<Rightarrow> VertexPtr \<Rightarrow> 'w \<Rightarrow> ('w, unit) queue_call"
  q_pruneEdgesTo :: "ptr \<Rightarrow> VertexPtr \<Rightarrow> 'w \<Rightarrow> ('w, unit) queue_call"
  q_markVertexUnsorted :: "ptr \<Rightarrow> VertexPtr \<Rightarrow> 'w \<Rightarrow> ('w, unit) queue_call"
  q_samplePruneCondition :: "ptr \<Rightarrow> VertexPtr \<Rightarrow> 'w \<Rightarrow> ('w, bool) queue_call"
  q_prune :: "ptr \<Rightarrow> ptr \<Rightarrow> ptr \<Rightarrow> 'w \<Rightarrow> ('w, 32 word \<times> 32 word) queue_call"
  q_resort :: "ptr \<Rightarrow> ptr \<Rightarrow> ptr \<Rightarrow> 'w \<Rightarrow> ('w, 32 word \<times> 32 word) queue_call"

text \<open>A \<^verbatim>\<open>PlannerSolution\<close> as \<^verbatim>\<open>publishSolution\<close> fills it: the states of the path, the
  difference given to \<^verbatim>\<open>setApproximate\<close> if that was called, and the \<^verbatim>\<open>optimized_\<close> flag
  (the name of the planner, which it also gets, is left out).\<close>

record 's PlannerSolution =
  sol_path :: "'s option list"
  sol_approximate :: "double option"
  sol_optimized :: bool

text \<open>The problem definition, and the part of the base class \<^verbatim>\<open>Planner\<close> that is not in
  BITstar.cpp: \<open>Planner_setup\<close> and \<open>Planner_clear\<close> are what \<^verbatim>\<open>Planner::setup()\<close> and
  \<^verbatim>\<open>Planner::clear()\<close> do to the store, \<open>pis_checkValidity\<close> is the check of the planner's
  inputs in \<^verbatim>\<open>Planner::checkValidity()\<close>, which may raise.\<close>

record ('w, 's) env = "('w, 's) IntegratedQueue" +
  pd_getStartStateCount :: "ptr \<Rightarrow> 'w \<Rightarrow> 32 word"
  pd_getStartState :: "ptr \<Rightarrow> 'w \<Rightarrow> 32 word \<Rightarrow> 's option"
  pd_getGoalState :: "ptr \<Rightarrow> 'w \<Rightarrow> 's option"
  pd_hasOptimizationObjective :: "ptr \<Rightarrow> 'w \<Rightarrow> bool"
  pd_setPathLengthObjective :: "ptr \<Rightarrow> 'w \<Rightarrow> 'w"
  pd_getOptimizationObjective :: "ptr \<Rightarrow> 'w \<Rightarrow> ptr"
  pd_addSolutionPath :: "ptr \<Rightarrow> 's PlannerSolution \<Rightarrow> 'w \<Rightarrow> 'w"
  Planner_setup :: "'w \<Rightarrow> 'w"
  Planner_clear :: "'w \<Rightarrow> 'w"
  pis_checkValidity :: "'w \<Rightarrow> abort option"

subsection \<open>Costs\<close>

definition isCostBetterThan :: "cost \<Rightarrow> cost \<Rightarrow> bool" where
  "isCostBetterThan a b = dless a b"

definition isCostWorseThan :: "cost \<Rightarrow> cost \<Rightarrow> bool" where
  "isCostWorseThan a b = isCostBetterThan b a"

definition isCostEquivalentTo :: "cost \<Rightarrow> cost \<Rightarrow> bool" where
  "isCostEquivalentTo a b = (\<not> isCostBetterThan a b \<and> \<not> isCostBetterThan b a)"

definition isCostBetterThanOrEquivalentTo :: "cost \<Rightarrow> cost \<Rightarrow> bool" where
  "isCostBetterThanOrEquivalentTo a b = (\<not> isCostBetterThan b a)"

definition isCostWorseThanOrEquivalentTo :: "cost \<Rightarrow> cost \<Rightarrow> bool" where
  "isCostWorseThanOrEquivalentTo a b = (\<not> isCostBetterThan a b)"

definition isFinite :: "('w, 's) env \<Rightarrow> members \<Rightarrow> cost \<Rightarrow> bool" where
  "isFinite env m c = isCostBetterThan c (opt_infiniteCost env (m_opt m))"

definition betterCost :: "cost \<Rightarrow> cost \<Rightarrow> cost" where
  "betterCost a b = (if isCostBetterThan b a then b else a)"

definition fractionalChange :: "('w, 's) env \<Rightarrow> members \<Rightarrow> cost \<Rightarrow> cost \<Rightarrow> double" where
  "fractionalChange env m newCost oldCost =
     (if \<not> isFinite env m oldCost then PosInf
      else ddiv (dsub newCost oldCost) oldCost)"

subsection \<open>Heuristics and edge cost\<close>

definition costToComeHeuristic :: "('w, 's) env \<Rightarrow> members \<Rightarrow> 'w \<Rightarrow> VertexPtr \<Rightarrow> cost" where
  "costToComeHeuristic env m w vertex =
     opt_motionCostHeuristic env (m_opt m) w
       (v_state env w (m_startVertex m)) (v_state env w vertex)"

definition edgeCostHeuristic :: "('w, 's) env \<Rightarrow> members \<Rightarrow> 'w \<Rightarrow> vertex_pair_t \<Rightarrow> cost" where
  "edgeCostHeuristic env m w edgePair =
     opt_motionCostHeuristic env (m_opt m) w
       (v_state env w (fst edgePair)) (v_state env w (snd edgePair))"

definition costToGoHeuristic :: "('w, 's) env \<Rightarrow> members \<Rightarrow> 'w \<Rightarrow> VertexPtr \<Rightarrow> cost" where
  "costToGoHeuristic env m w vertex =
     opt_motionCostHeuristic env (m_opt m) w
       (v_state env w vertex) (v_state env w (m_goalVertex m))"

definition trueEdgeCost :: "('w, 's) env \<Rightarrow> 'w \<Rightarrow> vertex_pair_t \<Rightarrow> cost" where
  "trueEdgeCost env w edgePair =
     si_distance env w (v_state env w (fst edgePair)) (v_state env w (snd edgePair))"

text \<open>\<^verbatim>\<open>nnDistance\<close> raises before it asks the state space when a state is missing.\<close>

definition nnDistance :: "('w, 's) env \<Rightarrow> 'w \<Rightarrow> VertexPtr \<Rightarrow> VertexPtr \<Rightarrow> abort + double" where
  "nnDistance env w a b =
     (if v_state env w a = None then Inl (Exception ''a->state is unallocated'')
      else if v_state env w b = None then Inl (Exception ''b->state is unallocated'')
      else Inr (si_distance env w (v_state env w b) (v_state env w a)))"

text \<open>Calling an installed distance function calls the member function it was bound to.\<close>

fun call_distance_function ::
  "('w, 's) env \<Rightarrow> distance_function \<Rightarrow> 'w \<Rightarrow> VertexPtr \<Rightarrow> VertexPtr \<Rightarrow> abort + double" where
  "call_distance_function env NnDistance w a b = nnDistance env w a b"


subsection \<open>Connection radius and neighbour count\<close>

definition minimumRggR :: "('w, 's) env \<Rightarrow> members \<Rightarrow> BITstar \<Rightarrow> 'w \<Rightarrow> double" where
  "minimumRggR env m p w =
     (let dimDbl = double_of_uint (si_getStateDimension env w)
      in fmul env (fmul env (rewireFactor p) (Fin 2))
           (std_pow env
              (fmul env (fadd env (Fin 1) (fdiv env (Fin 1) dimDbl))
                 (fdiv env (sm_getInformedMeasure env (m_sampler m) (bestCost p) w)
                    (unitNBallMeasure env (si_getStateDimension env w))))
              (fdiv env (Fin 1) dimDbl)))"

definition minimumRggK :: "('w, 's) env \<Rightarrow> BITstar \<Rightarrow> 'w \<Rightarrow> double" where
  "minimumRggK env p w =
     (let dimDbl = double_of_uint (si_getStateDimension env w)
      in fmul env (rewireFactor p) (fadd env (e_double env) (fdiv env (e_double env) dimDbl)))"

definition r :: "('w, 's) env \<Rightarrow> members \<Rightarrow> BITstar \<Rightarrow> 'w \<Rightarrow> 32 word \<Rightarrow> double" where
  "r env m p w N =
     (let dimDbl = double_of_uint (si_getStateDimension env w);
          cardDbl = double_of_uint N
      in fmul env (minimumRggR env m p w)
              (std_pow env (fdiv env (std_log env cardDbl) cardDbl) (fdiv env (Fin 1) dimDbl)))"

definition k :: "('w, 's) env \<Rightarrow> BITstar \<Rightarrow> 32 word \<Rightarrow> 32 word" where
  "k env p N =
     uint_of_double (dceil (fmul env (k_rgg p) (std_log env (double_of_uint N))))"

text \<open>The sum of the two sizes is computed in \<^verbatim>\<open>size_t\<close> and stored in an \<^verbatim>\<open>unsigned int\<close>.\<close>

definition updateNearestTerms :: "('w, 's) env \<Rightarrow> members \<Rightarrow> BITstar \<Rightarrow> 'w \<Rightarrow> BITstar" where
  "updateNearestTerms env m p w =
     (let N = (word_of_nat (nn_size env (m_vertexNN m) w + nn_size env (m_freeStateNN m) w)
                 :: 32 word)
      in if useKNearest p then p\<lparr>k_member := k env p N\<rparr>
         else p\<lparr>r_member := r env m p w N\<rparr>)"

definition initializeNearestTerms :: "('w, 's) env \<Rightarrow> members \<Rightarrow> BITstar \<Rightarrow> 'w \<Rightarrow> BITstar" where
  "initializeNearestTerms env m p w =
     updateNearestTerms env m (p\<lparr>k_rgg := minimumRggK env p w\<rparr>) w"

subsection \<open>Samples\<close>

definition addSample :: "('w, 's) env \<Rightarrow> members \<Rightarrow> VertexPtr \<Rightarrow> 'w \<Rightarrow> 'w" where
  "addSample env m newSample w = nn_add env (m_freeStateNN m) newSample (v_markNew env newSample w)"

text \<open>The \<^verbatim>\<open>for\<close> loop of \<^verbatim>\<open>updateSamples\<close>; the first argument counts the iterations left.\<close>

fun generateSamples ::
  "('w, 's) env \<Rightarrow> members \<Rightarrow> nat \<Rightarrow> BITstar \<Rightarrow> 'w \<Rightarrow> BITstar \<times> 'w" where
  "generateSamples env m 0 p w = (p, w)"
| "generateSamples env m (Suc n) p w =
     (let (newState, w1) = v_new env (m_opt m) False w;
          w2 = sm_sampleUniform env (m_sampler m) (bestCost p) (v_state env w1 newState) w1;
          p1 = p\<lparr>numStateCollisionChecks := numStateCollisionChecks p + 1\<rparr>;
          w3 = (if si_isValid env w2 (v_state env w2 newState) then addSample env m newState w2
                else w2)
      in generateSamples env m n p1 w3)"

definition updateSamples ::
  "('w, 's) env \<Rightarrow> members \<Rightarrow> VertexPtr \<Rightarrow> BITstar \<Rightarrow> 'w \<Rightarrow> BITstar \<times> 'w" where
  "updateSamples env m vertex p w =
     (if isCostBetterThan (costSampled p) (bestCost p) then
        (let p1 = p\<lparr>numSamples := numSamples p + samplesPerBatch p\<rparr>;
             (p2, w2) = generateSamples env m (unat (samplesPerBatch p1)) p1 w;
             p3 = p2\<lparr>costSampled := opt_infiniteCost env (m_opt m)\<rparr>
         in (updateNearestTerms env m p3 w2, w2))
      else (p, w))"

definition nearestSamples ::
  "('w, 's) env \<Rightarrow> members \<Rightarrow> VertexPtr \<Rightarrow> BITstar \<Rightarrow> 'w \<Rightarrow> VertexPtr list \<times> BITstar \<times> 'w" where
  "nearestSamples env m vertex p w =
     (let (p1, w1) = updateSamples env m vertex p w;
          p2 = p1\<lparr>numNearestNeighbours := numNearestNeighbours p1 + 1\<rparr>
      in (if useKNearest p2 then nn_nearestK env (m_freeStateNN m) vertex (k_member p2) w1
          else nn_nearestR env (m_freeStateNN m) vertex (r_member p2) w1,
          p2, w1))"

definition nearestVertices ::
  "('w, 's) env \<Rightarrow> members \<Rightarrow> VertexPtr \<Rightarrow> BITstar \<Rightarrow> 'w \<Rightarrow> VertexPtr list \<times> BITstar \<times> 'w" where
  "nearestVertices env m vertex p w =
     (let p1 = p\<lparr>numNearestNeighbours := numNearestNeighbours p + 1\<rparr>
      in (if useKNearest p1 then nn_nearestK env (m_vertexNN m) vertex (k_member p1) w
          else nn_nearestR env (m_vertexNN m) vertex (r_member p1) w,
          p1, w))"

subsection \<open>Calls into the integrated queue\<close>

text \<open>\<open>run\<close> carries a call into the queue through: each request of the queue is answered by the
  planner's own callback, which may change the planner's members and the store.\<close>

primrec run ::
  "('w, 's) env \<Rightarrow> members \<Rightarrow> ('w, 'a) queue_call \<Rightarrow> BITstar \<Rightarrow> 'a \<times> BITstar \<times> 'w" where
  "run env m (Done a w) = (\<lambda>p. (a, p, w))"
| "run env m (NearestSamples vertex w cont) =
     (\<lambda>p. let (neighbours, p1, w1) = nearestSamples env m vertex p w
          in run env m (cont neighbours w1) p1)"
| "run env m (NearestVertices vertex w cont) =
     (\<lambda>p. let (neighbours, p1, w1) = nearestVertices env m vertex p w
          in run env m (cont neighbours w1) p1)"


subsection \<open>Resorting and pruning\<close>

definition resort :: "('w, 's) env \<Rightarrow> members \<Rightarrow> BITstar \<Rightarrow> 'w \<Rightarrow> BITstar \<times> 'w" where
  "resort env m p w =
     (let (numPruned, p1, w1) =
            run env m (q_resort env (m_intQueue m) (m_vertexNN m) (m_freeStateNN m) w) p;
          p2 = p1\<lparr>numVerticesDisconnected := numVerticesDisconnected p1 + fst numPruned\<rparr>;
          p3 = p2\<lparr>numFreeStatesPruned := numFreeStatesPruned p2 + snd numPruned\<rparr>
      in (p3, w1))"

definition dropSample ::
  "('w, 's) env \<Rightarrow> members \<Rightarrow> VertexPtr \<Rightarrow> BITstar \<Rightarrow> 'w \<Rightarrow> BITstar \<times> 'w" where
  "dropSample env m oldSample p w =
     (p\<lparr>numFreeStatesPruned := numFreeStatesPruned p + 1\<rparr>,
      nn_remove env (m_freeStateNN m) oldSample w)"

text \<open>The loop of \<^verbatim>\<open>pruneSamples\<close> over the list of samples taken before it starts.\<close>

fun pruneSamples_loop ::
  "('w, 's) env \<Rightarrow> members \<Rightarrow> VertexPtr list \<Rightarrow> BITstar \<Rightarrow> 'w \<Rightarrow> BITstar \<times> 'w" where
  "pruneSamples_loop env m [] p w = (p, w)"
| "pruneSamples_loop env m (sample # samples) p w =
     (let (pruneIt, p1, w1) = run env m (q_samplePruneCondition env (m_intQueue m) sample w) p;
          (p2, w2) = (if pruneIt then dropSample env m sample p1 w1 else (p1, w1))
      in pruneSamples_loop env m samples p2 w2)"

definition pruneSamples :: "('w, 's) env \<Rightarrow> members \<Rightarrow> BITstar \<Rightarrow> 'w \<Rightarrow> BITstar \<times> 'w" where
  "pruneSamples env m p w = pruneSamples_loop env m (nn_list env (m_freeStateNN m) w) p w"

definition prune :: "('w, 's) env \<Rightarrow> members \<Rightarrow> BITstar \<Rightarrow> 'w \<Rightarrow> BITstar \<times> 'w" where
  "prune env m p w =
     (if usePruning p \<and> hasSolution p
         \<and> dless (pruneFraction p) (dabs (fractionalChange env m (bestCost p) (prunedCost p)))
      then
        (if (sm_hasInformedMeasure env (m_sampler m) w
               \<and> dless (sm_getInformedMeasure env (m_sampler m) (bestCost p) w)
                       (si_getSpaceMeasure env w))
            \<or> \<not> sm_hasInformedMeasure env (m_sampler m) w
         then
           (let p1 = p\<lparr>numPrunings := numPrunings p + 1\<rparr>;
                (p2, w2) = pruneSamples env m p1 w;
                (numPruned, p3, w3) =
                   run env m (q_prune env (m_intQueue m) (m_vertexNN m) (m_freeStateNN m) w2) p2;
                p4 = p3\<lparr>numVerticesDisconnected := numVerticesDisconnected p3 + fst numPruned\<rparr>;
                p5 = p4\<lparr>numFreeStatesPruned := numFreeStatesPruned p4 + snd numPruned\<rparr>
            in (p5\<lparr>prunedCost := bestCost p5\<rparr>, w3))
         else (p, w))
      else (p, w))"

definition newBatch :: "('w, 's) env \<Rightarrow> members \<Rightarrow> BITstar \<Rightarrow> 'w \<Rightarrow> BITstar \<times> 'w" where
  "newBatch env m p w =
     (let p1 = p\<lparr>numBatches := numBatches p + 1\<rparr>;
          p2 = p1\<lparr>costSampled := minCost p1\<rparr>;
          (u, p3, w3) = run env m (q_reset env (m_intQueue m) w) p2;
          (p4, w4) = prune env m p3 w3
      in (p4\<lparr>sampleDensity :=
                ddiv (double_of_uint (samplesPerBatch p4))
                     (sm_getInformedMeasure env (m_sampler m) (bestCost p4) w4)\<rparr>,
          w4))"

subsection \<open>Edges and vertices\<close>

definition checkEdge ::
  "('w, 's) env \<Rightarrow> vertex_pair_t \<Rightarrow> BITstar \<Rightarrow> 'w \<Rightarrow> bool \<times> BITstar" where
  "checkEdge env edge p w =
     (si_checkMotion env w (v_state env w (fst edge)) (v_state env w (snd edge)),
      p\<lparr>numEdgeCollisionChecks := numEdgeCollisionChecks p + 1\<rparr>)"

definition addVertex ::
  "('w, 's) env \<Rightarrow> members \<Rightarrow> VertexPtr \<Rightarrow> bool \<Rightarrow> bool \<Rightarrow> BITstar \<Rightarrow> 'w
     \<Rightarrow> (abort + unit) \<times> BITstar \<times> 'w" where
  "addVertex env m newVertex removeFromFree updateExpansionQueue p w =
     (if \<not> v_hasParent env w newVertex \<and> \<not> v_isRoot env w newVertex then
        (Inl (Exception ''Vertices must be connected to the graph before adding''), p, w)
      else
        (let w1 = (if removeFromFree then nn_remove env (m_freeStateNN m) newVertex w else w);
             w2 = nn_add env (m_vertexNN m) newVertex w1;
             (p3, w3) =
                (if updateExpansionQueue then
                   (let (u, p', w') = run env m (q_insertVertex env (m_intQueue m) newVertex w2) p
                    in (p', w'))
                 else (p, w2))
         in (Inr (), p3\<lparr>numVertices := numVertices p3 + 1\<rparr>, w3)))"

text \<open>\<^verbatim>\<open>newEdge.second->getParent()\<close> is dereferenced without a check.\<close>

definition replaceParent ::
  "('w, 's) env \<Rightarrow> members \<Rightarrow> vertex_pair_t \<Rightarrow> cost \<Rightarrow> BITstar \<Rightarrow> 'w
     \<Rightarrow> (abort + unit) \<times> BITstar \<times> 'w" where
  "replaceParent env m newEdge edgeCost p w =
     (let p1 = p\<lparr>numRewirings := numRewirings p + 1\<rparr>
      in case v_getParent env w (snd newEdge) of
           None \<Rightarrow> (Inl NullDereference, p1, w)
         | Some oldParent \<Rightarrow>
             (let w1 = v_removeChild env oldParent (snd newEdge) False w;
                  w2 = v_removeParent env (snd newEdge) False w1;
                  w3 = v_addChild env (fst newEdge) (snd newEdge) False w2;
                  w4 = v_addParent env (snd newEdge) (fst newEdge) edgeCost True w3;
                  (u, p2, w5) =
                     run env m (q_markVertexUnsorted env (m_intQueue m) (snd newEdge) w4) p1
              in (Inr (), p2, w5)))"

definition addEdge ::
  "('w, 's) env \<Rightarrow> members \<Rightarrow> vertex_pair_t \<Rightarrow> cost \<Rightarrow> bool \<Rightarrow> bool \<Rightarrow> BITstar \<Rightarrow> 'w
     \<Rightarrow> (abort + unit) \<times> BITstar \<times> 'w" where
  "addEdge env m newEdge edgeCost removeFromFree updateExpansionQueue p w =
     (if v_isConnected env w (snd newEdge) then replaceParent env m newEdge edgeCost p w
      else
        (let w1 = v_addChild env (fst newEdge) (snd newEdge) False w;
             w2 = v_addParent env (snd newEdge) (fst newEdge) edgeCost True w1
         in addVertex env m (snd newEdge) removeFromFree updateExpansionQueue p w2))"


subsection \<open>\<^verbatim>\<open>solve\<close>\<close>

text \<open>
  The body of the \<^verbatim>\<open>while\<close> loop of \<^verbatim>\<open>solve\<close> is cut in three at the places the properties
  speak about: \<open>solve_popEdge\<close> runs from the head of the body to the popped edge,
  \<open>solve_improved\<close> is the check for an improved solution made after an edge was added, and
  \<open>solve_edge\<close> is the \<^verbatim>\<open>if\<close> cascade on the popped edge. A body returns the new value of the
  local \<^verbatim>\<open>stopLoop\<close>, which is false whenever a body starts.
\<close>

definition solve_popEdge ::
  "('w, 's) env \<Rightarrow> members \<Rightarrow> BITstar \<Rightarrow> 'w \<Rightarrow> vertex_pair_t \<times> BITstar \<times> 'w" where
  "solve_popEdge env m p w =
     (let p1 = p\<lparr>numIterations := numIterations p + 1\<rparr>;
          (p2, w2) = (if useStrictQueueOrdering p1 then resort env m p1 w else (p1, w));
          (empty, p3, w3) = run env m (q_isEmpty env (m_intQueue m) w2) p2;
          (p4, w4) = (if empty then newBatch env m p3 w3 else (p3, w3))
      in run env m (q_popFrontEdge env (m_intQueue m) w4) p4)"

definition solve_improved ::
  "('w, 's) env \<Rightarrow> members \<Rightarrow> BITstar \<Rightarrow> 'w \<Rightarrow> bool \<times> BITstar \<times> 'w" where
  "solve_improved env m p w =
     (if isCostBetterThan (v_getCost env w (m_goalVertex m)) (bestCost p) then
        (let p1 = (if \<not> hasSolution p
                   then p\<lparr>approximateSoln := False, approximateDiff := Fin (- 1)\<rparr> else p);
             p2 = p1\<lparr>hasSolution := True\<rparr>;
             p3 = p2\<lparr>bestCost := v_getCost env w (m_goalVertex m)\<rparr>;
             (u, p4, w4) = run env m (q_setThreshold env (m_intQueue m) (bestCost p3) w) p3
         in (stopOnSolnChange p4, p4, w4))
      else (False, p, w))"

definition solve_edge ::
  "('w, 's) env \<Rightarrow> members \<Rightarrow> vertex_pair_t \<Rightarrow> BITstar \<Rightarrow> 'w
     \<Rightarrow> (abort + bool) \<times> BITstar \<times> 'w" where
  "solve_edge env m bestEdge p w =
     (if isCostBetterThan
           (opt_combineCosts3 env (m_opt m) (v_getCost env w (fst bestEdge))
              (edgeCostHeuristic env m w bestEdge) (costToGoHeuristic env m w (snd bestEdge)))
           (v_getCost env w (m_goalVertex m))
      then
        (let trueCost = trueEdgeCost env w bestEdge
         in if isCostBetterThan
                 (opt_combineCosts3 env (m_opt m) (costToComeHeuristic env m w (fst bestEdge))
                    trueCost (costToGoHeuristic env m w (snd bestEdge)))
                 (v_getCost env w (m_goalVertex m))
            then
              (let (free, p1) = checkEdge env bestEdge p w
               in if free then
                    (if isCostBetterThan
                          (opt_combineCosts env (m_opt m) (v_getCost env w (fst bestEdge)) trueCost)
                          (v_getCost env w (snd bestEdge))
                     then
                       (case addEdge env m bestEdge trueCost True True p1 w of
                          (Inl a, p2, w2) \<Rightarrow> (Inl a, p2, w2)
                        | (Inr u, p2, w2) \<Rightarrow>
                            (let (stopLoop, p3, w3) = solve_improved env m p2 w2;
                                 (u', p4, w4) =
                                    run env m (q_pruneEdgesTo env (m_intQueue m) (snd bestEdge) w3) p3
                             in (Inr stopLoop, p4, w4)))
                     else (Inr False, p1, w))
                  else if useFailureTracking p1 then
                    (Inr False, p1, v_markAsFailedChild env (fst bestEdge) (snd bestEdge) w)
                  else (Inr False, p1, w))
            else if useFailureTracking p then
              (Inr False, p, v_markAsFailedChild env (fst bestEdge) (snd bestEdge) w)
            else (Inr False, p, w))
      else
        (let (sorted, p1, w1) = run env m (q_isSorted env (m_intQueue m) w) p
         in if \<not> sorted then
              (let (p2, w2) = resort env m p1 w1 in (Inr False, p2, w2))
            else
              (let (u, p2, w2) = run env m (q_finish env (m_intQueue m) w1) p1
               in (Inr False, p2, w2))))"

definition solve_iteration ::
  "('w, 's) env \<Rightarrow> members \<Rightarrow> BITstar \<Rightarrow> 'w \<Rightarrow> (abort + bool) \<times> BITstar \<times> 'w" where
  "solve_iteration env m p w =
     (let (bestEdge, p1, w1) = solve_popEdge env m p w in solve_edge env m bestEdge p1 w1)"

text \<open>
  The \<^verbatim>\<open>while\<close> loop. Nothing bounds the number of its iterations, so the model counts them
  down from a \<open>fuel\<close> and is \<open>None\<close> when the fuel runs out before the loop ends. \<open>ptc\<close> is the
  termination condition given to \<^verbatim>\<open>solve\<close>, evaluated on the store. The result is the exception
  that left the loop, if any, with the members and the store as they then are.
\<close>

fun solve_loop ::
  "('w, 's) env \<Rightarrow> ('w \<Rightarrow> bool) \<Rightarrow> members \<Rightarrow> nat \<Rightarrow> bool \<Rightarrow> BITstar \<Rightarrow> 'w
     \<Rightarrow> ((abort + unit) \<times> BITstar \<times> 'w) option" where
  "solve_loop env ptc m 0 stopLoop p w = None"
| "solve_loop env ptc m (Suc fuel) stopLoop p w =
     (if \<not> opt_isSatisfied env (m_opt m) w (bestCost p) \<and> \<not> ptc w
         \<and> isCostBetterThan (minCost p) (bestCost p) \<and> \<not> stopLoop
      then
        (case solve_iteration env m p w of
           (Inl a, p1, w1) \<Rightarrow> Some (Inl a, p1, w1)
         | (Inr stopLoop', p1, w1) \<Rightarrow> solve_loop env ptc m fuel stopLoop' p1 w1)
      else Some (Inr (), p, w))"

text \<open>The first loop of \<^verbatim>\<open>publishSolution\<close> follows the parents from the goal until a null
  pointer; it has no bound either.\<close>

fun reversePath :: "('w, 's) env \<Rightarrow> 'w \<Rightarrow> nat \<Rightarrow> VertexPtr option \<Rightarrow> VertexPtr list option" where
  "reversePath env w fuel None = Some []"
| "reversePath env w 0 (Some vertex) = None"
| "reversePath env w (Suc fuel) (Some vertex) =
     map_option ((#) vertex) (reversePath env w fuel (v_getParent env w vertex))"

definition publishSolution ::
  "('w, 's) env \<Rightarrow> members \<Rightarrow> nat \<Rightarrow> BITstar \<Rightarrow> 'w \<Rightarrow> 'w option" where
  "publishSolution env m fuel p w =
     (case reversePath env w fuel (Some (m_goalVertex m)) of
        None \<Rightarrow> None
      | Some path \<Rightarrow>
          Some (pd_addSolutionPath env (m_pdef m)
                  \<lparr>sol_path = map (v_state env w) (rev path),
                   sol_approximate = (if approximateSoln p then Some (approximateDiff p) else None),
                   sol_optimized = opt_isSatisfied env (m_opt m) w (bestCost p)\<rparr> w))"


subsection \<open>Construction, \<^verbatim>\<open>setup\<close> and \<^verbatim>\<open>clear\<close>\<close>

text \<open>The members as the constructor initialises them; the base class starts with no problem
  definition and not set up.\<close>

definition BITstar_new :: BITstar where
  "BITstar_new =
     \<lparr>pdef = None, setup_flag = False,
      sampler = None, opt = None, startVertex = None, goalVertex = None,
      freeStateNN = None, vertexNN = None, intQueue = None,
      sampleDensity = Fin 0, r_member = Fin 0, k_rgg = Fin 0, k_member = 0,
      bestCost = PosInf, prunedCost = PosInf, minCost = Fin 0, costSampled = Fin 0,
      hasSolution = False, approximateSoln = False, approximateDiff = Fin (- 1),
      numIterations = 0, numBatches = 0, numPrunings = 0, numSamples = 0, numVertices = 0,
      numFreeStatesPruned = 0, numVerticesDisconnected = 0, numRewirings = 0,
      numStateCollisionChecks = 0, numEdgeCollisionChecks = 0, numNearestNeighbours = 0,
      useStrictQueueOrdering = False, rewireFactor = Fin 1.1, samplesPerBatch = 100,
      useFailureTracking = False, useKNearest = False, usePruning = True,
      pruneFraction = Fin 0.01, stopOnSolnChange = False\<rparr>"

text \<open>
  \<^verbatim>\<open>setup()\<close> (\<open>setup\<close> is an Isabelle keyword). \<^verbatim>\<open>Planner::setup()\<close> marks the planner as
  set up. The two early returns log an error and return normally. The member functions called at
  the end run on the pointers just assigned.
\<close>

definition setup_planner ::
  "('w, 's) env \<Rightarrow> BITstar \<Rightarrow> 'w \<Rightarrow> (abort + unit) \<times> BITstar \<times> 'w" where
  "setup_planner env p w =
     (let p0 = p\<lparr>setup_flag := True\<rparr>;
          w0 = Planner_setup env w
      in case pdef p0 of
           None \<Rightarrow> (Inr (), p0\<lparr>setup_flag := False\<rparr>, w0)
         | Some pd \<Rightarrow>
             if pd_getStartStateCount env pd w0 \<noteq> 1 then (Inr (), p0\<lparr>setup_flag := False\<rparr>, w0)
             else
               (let w1 = (if \<not> pd_hasOptimizationObjective env pd w0
                          then pd_setPathLengthObjective env pd w0 else w0);
                    ob = pd_getOptimizationObjective env pd w1;
                    (fnn, w2) = (case freeStateNN p0 of
                                   None \<Rightarrow> getDefaultNearestNeighbors env w1
                                 | Some nn \<Rightarrow> (nn, w1));
                    (vnn, w3) = (case vertexNN p0 of
                                   None \<Rightarrow> getDefaultNearestNeighbors env w2
                                 | Some nn \<Rightarrow> (nn, w2));
                    w4 = nn_setDistanceFunction env fnn NnDistance w3;
                    w5 = nn_setDistanceFunction env vnn NnDistance w4;
                    (sv, w6) = v_new env ob True w5;
                    w7 = si_copyState env (v_state env w6 sv) (pd_getStartState env pd w6 0) w6;
                    (gv, w8) = v_new env ob False w7;
                    w9 = si_copyState env (v_state env w8 gv) (pd_getGoalState env pd w8) w8;
                    (q, w10) = q_new env sv gv w9;
                    w11 = q_setUseFailureTracking env q (useFailureTracking p0) w10;
                    (smp, w12) = opt_allocInformedStateSampler env ob pd w11;
                    m = \<lparr>m_pdef = pd, m_sampler = smp, m_opt = ob, m_startVertex = sv,
                         m_goalVertex = gv, m_freeStateNN = fnn, m_vertexNN = vnn,
                         m_intQueue = q\<rparr>;
                    p1 = p0\<lparr>opt := Some ob, freeStateNN := Some fnn, vertexNN := Some vnn,
                            startVertex := Some sv, goalVertex := Some gv, intQueue := Some q,
                            sampler := Some smp\<rparr>;
                    p2 = p1\<lparr>bestCost := opt_infiniteCost env ob,
                            prunedCost := opt_infiniteCost env ob\<rparr>;
                    p3 = p2\<lparr>minCost := costToComeHeuristic env m w12 gv\<rparr>;
                    p4 = p3\<lparr>costSampled := bestCost p3\<rparr>;
                    w13 = addSample env m gv w12
                in case addVertex env m sv False True p4 w13 of
                     (Inl a, p5, w14) \<Rightarrow> (Inl a, p5, w14)
                   | (Inr u, p5, w14) \<Rightarrow> (Inr (), initializeNearestTerms env m p5 w14, w14)))"

text \<open>\<^verbatim>\<open>clear()\<close>. \<^verbatim>\<open>Planner::clear()\<close> touches the base class's input states only.\<close>

definition clear :: "('w, 's) env \<Rightarrow> BITstar \<Rightarrow> 'w \<Rightarrow> BITstar \<times> 'w" where
  "clear env p w =
     (let p1 = p\<lparr>sampler := None, opt := None, startVertex := None, goalVertex := None\<rparr>;
          (p2, w2) = (case freeStateNN p1 of
                        Some nn \<Rightarrow> (p1\<lparr>freeStateNN := None\<rparr>, nn_clear env nn w)
                      | None \<Rightarrow> (p1, w));
          (p3, w3) = (case vertexNN p2 of
                        Some nn \<Rightarrow> (p2\<lparr>vertexNN := None\<rparr>, nn_clear env nn w2)
                      | None \<Rightarrow> (p2, w2));
          (p4, w4) = (case intQueue p3 of
                        Some q \<Rightarrow> (p3\<lparr>intQueue := None\<rparr>, q_clear env q w3)
                      | None \<Rightarrow> (p3, w3));
          p5 = p4\<lparr>sampleDensity := Fin 0, r_member := Fin 0, k_rgg := Fin 0, k_member := 0,
                  bestCost := PosInf, prunedCost := PosInf, minCost := Fin 0,
                  costSampled := Fin 0, hasSolution := False, approximateSoln := False,
                  approximateDiff := Fin (- 1), numIterations := 0, numSamples := 0,
                  numVertices := 0, numFreeStatesPruned := 0, numVerticesDisconnected := 0,
                  numStateCollisionChecks := 0, numEdgeCollisionChecks := 0,
                  numNearestNeighbours := 0, numRewirings := 0, numBatches := 0,
                  numPrunings := 0\<rparr>
      in (p5\<lparr>setup_flag := False\<rparr>, Planner_clear env w4))"

text \<open>
  \<^verbatim>\<open>solve\<close> starts with \<^verbatim>\<open>Planner::checkValidity()\<close> of the base class, which sets the planner
  up when it is not and then checks its inputs. The value returned is the pair given to the
  constructor of \<^verbatim>\<open>PlannerStatus\<close>.
\<close>

definition checkValidity ::
  "('w, 's) env \<Rightarrow> BITstar \<Rightarrow> 'w \<Rightarrow> (abort + unit) \<times> BITstar \<times> 'w" where
  "checkValidity env p w =
     (case (if \<not> setup_flag p then setup_planner env p w else (Inr (), p, w)) of
        (Inl a, p1, w1) \<Rightarrow> (Inl a, p1, w1)
      | (Inr u, p1, w1) \<Rightarrow>
          (case pis_checkValidity env w1 of
             Some a \<Rightarrow> (Inl a, p1, w1)
           | None \<Rightarrow> (Inr (), p1, w1)))"

definition solve ::
  "('w, 's) env \<Rightarrow> ('w \<Rightarrow> bool) \<Rightarrow> nat \<Rightarrow> BITstar \<Rightarrow> 'w
     \<Rightarrow> ((abort + bool \<times> bool) \<times> BITstar \<times> 'w) option" where
  "solve env ptc fuel p w =
     (case checkValidity env p w of
        (Inl a, p1, w1) \<Rightarrow> Some (Inl a, p1, w1)
      | (Inr u, p1, w1) \<Rightarrow>
          (case dereferenced p1 of
             None \<Rightarrow> Some (Inl NullDereference, p1, w1)
           | Some m \<Rightarrow>
               (case solve_loop env ptc m fuel False p1 w1 of
                  None \<Rightarrow> None
                | Some (Inl a, p2, w2) \<Rightarrow> Some (Inl a, p2, w2)
                | Some (Inr u', p2, w2) \<Rightarrow>
                    if hasSolution p2 then
                      (case publishSolution env m fuel p2 w2 of
                         None \<Rightarrow> None
                       | Some w3 \<Rightarrow> Some (Inr (hasSolution p2, approximateSoln p2), p2, w3))
                    else Some (Inr (hasSolution p2, approximateSoln p2), p2, w2))))"

subsection \<open>Looking at the queue\<close>

text \<open>The two arguments of \<^verbatim>\<open>std::make_pair\<close> each call \<^verbatim>\<open>frontEdge()\<close>; C++ leaves the order
  of the two open, the model takes the first argument first.\<close>

definition getNextEdgeInQueue ::
  "('w, 's) env \<Rightarrow> members \<Rightarrow> BITstar \<Rightarrow> 'w \<Rightarrow> ('s option \<times> 's option) \<times> BITstar \<times> 'w" where
  "getNextEdgeInQueue env m p w =
     (let (p1, w1) = (if useStrictQueueOrdering p then resort env m p w else (p, w));
          (empty, p2, w2) = run env m (q_isEmpty env (m_intQueue m) w1) p1
      in if \<not> empty then
           (let (e1, p3, w3) = run env m (q_frontEdge env (m_intQueue m) w2) p2;
                (e2, p4, w4) = run env m (q_frontEdge env (m_intQueue m) w3) p3
            in ((v_state env w3 (fst e1), v_state env w4 (snd e2)), p4, w4))
         else ((None, None), p2, w2))"

definition getNextEdgeValueInQueue ::
  "('w, 's) env \<Rightarrow> members \<Rightarrow> BITstar \<Rightarrow> 'w \<Rightarrow> cost \<times> BITstar \<times> 'w" where
  "getNextEdgeValueInQueue env m p w =
     (let (p1, w1) = (if useStrictQueueOrdering p then resort env m p w else (p, w));
          (empty, p2, w2) = run env m (q_isEmpty env (m_intQueue m) w1) p1
      in if \<not> empty then
           (let (v, p3, w3) = run env m (q_frontEdgeValue env (m_intQueue m) w2) p2
            in (fst v, p3, w3))
         else (opt_infiniteCost env (m_opt m), p2, w2))"


subsection \<open>What the callbacks leave alone\<close>

text \<open>\<open>callbacks_only p p'\<close>: \<open>p'\<close> differs from \<open>p\<close> at most in the members that
  \<^verbatim>\<open>nearestSamples\<close> and \<^verbatim>\<open>nearestVertices\<close> assign, which \<open>blank_callback_members\<close> overwrites.\<close>

definition blank_callback_members :: "BITstar \<Rightarrow> BITstar" where
  "blank_callback_members p =
     p\<lparr>numSamples := 0, numStateCollisionChecks := 0, costSampled := NaN, k_member := 0,
       r_member := NaN, numNearestNeighbours := 0\<rparr>"

definition callbacks_only :: "BITstar \<Rightarrow> BITstar \<Rightarrow> bool" where
  "callbacks_only p p' = (blank_callback_members p' = blank_callback_members p)"

text \<open>\<open>pruning_only\<close> also lets the two counters of pruned vertices and samples differ, and
  \<open>bookkeeping_only\<close> all the counters, the pruned cost and the sample density.\<close>

definition blank_pruning_members :: "BITstar \<Rightarrow> BITstar" where
  "blank_pruning_members p =
     (blank_callback_members p)\<lparr>numVerticesDisconnected := 0, numFreeStatesPruned := 0\<rparr>"

definition pruning_only :: "BITstar \<Rightarrow> BITstar \<Rightarrow> bool" where
  "pruning_only p p' = (blank_pruning_members p' = blank_pruning_members p)"

definition blank_bookkeeping :: "BITstar \<Rightarrow> BITstar" where
  "blank_bookkeeping p =
     (blank_pruning_members p)\<lparr>numPrunings := 0, prunedCost := NaN, numBatches := 0,
        sampleDensity := NaN, numIterations := 0, numEdgeCollisionChecks := 0,
        numRewirings := 0, numVertices := 0\<rparr>"

definition bookkeeping_only :: "BITstar \<Rightarrow> BITstar \<Rightarrow> bool" where
  "bookkeeping_only p p' = (blank_bookkeeping p' = blank_bookkeeping p)"

text \<open>The members that, during \<^verbatim>\<open>solve\<close>, only the check for an improved solution assigns, and
  the configuration.\<close>

definition solution_members :: "BITstar \<Rightarrow> cost \<times> bool \<times> bool \<times> double" where
  "solution_members p = (bestCost p, hasSolution p, approximateSoln p, approximateDiff p)"

definition configuration ::
  "BITstar \<Rightarrow> bool \<times> double \<times> 32 word \<times> bool \<times> bool \<times> bool \<times> double \<times> bool" where
  "configuration p =
     (useStrictQueueOrdering p, rewireFactor p, samplesPerBatch p, useFailureTracking p,
      useKNearest p, usePruning p, pruneFraction p, stopOnSolnChange p)"

subsection \<open>A small instance of the interfaces\<close>

text \<open>
  A one-dimensional world for evaluating the model: states are points of the real line; a state
  is the state of a vertex or one of the two states of the problem definition.
  Moving to the left is twice as long as moving to the right, so the distance is not symmetric.
  The objective charges twice the distance of a motion and takes half the distance as its
  heuristic, so it is not the path-length objective. The sampler always draws the point 5, and
  a nearest-neighbour structure reports every other element as near. The machine of the
  instance computes exactly: it rounds nothing.

  The queue is a list of edges with its front first and a list of the vertices it still has to
  expand. When it has no edge and is asked whether it is empty or for its front edge, it
  expands one vertex: it asks the planner for the samples near the vertex and queues an edge to
  each of them.

  The addresses of the objective, the sampler, the sample index, the vertex index, the queue and
  the problem definition are 1 to 6.
\<close>

datatype toy_address = OfVertex VertexPtr | OfStart | OfGoal

record toy_vertex =
  tv_allocated :: bool
  tv_point :: real
  tv_parent :: "VertexPtr option"
  tv_root :: bool
  tv_cost :: cost
  tv_failed :: "VertexPtr list"

record toy_world =
  tw_start :: real
  tw_goal :: real
  tw_vertices :: "toy_vertex list"
  tw_unexpanded :: "VertexPtr list"
  tw_edges :: "vertex_pair_t list"
  tw_sorted :: bool
  tw_threshold :: cost
  tw_samples :: "VertexPtr list"
  tw_tree :: "VertexPtr list"
  tw_allocated :: nat
  tw_installed :: "(ptr \<times> distance_function) list"
  tw_solutions :: "toy_address PlannerSolution list"
  tw_stop :: bool

definition toy_state :: "toy_world \<Rightarrow> VertexPtr \<Rightarrow> toy_address option" where
  "toy_state w v = (if tv_allocated (tw_vertices w ! v) then Some (OfVertex v) else None)"

fun toy_point :: "toy_world \<Rightarrow> toy_address \<Rightarrow> real" where
  "toy_point w (OfVertex v) = tv_point (tw_vertices w ! v)"
| "toy_point w OfStart = tw_start w"
| "toy_point w OfGoal = tw_goal w"

definition toy_distance ::
  "toy_world \<Rightarrow> toy_address option \<Rightarrow> toy_address option \<Rightarrow> double" where
  "toy_distance w a b =
     (case (a, b) of
        (Some x, Some y) \<Rightarrow>
          (let px = toy_point w x; py = toy_point w y
           in Fin (if px \<le> py then py - px else 2 * (px - py)))
      | _ \<Rightarrow> NaN)"

definition toy_heuristic ::
  "toy_world \<Rightarrow> toy_address option \<Rightarrow> toy_address option \<Rightarrow> cost" where
  "toy_heuristic w a b = dmul (Fin (1 / 2)) (toy_distance w a b)"

definition toy_change :: "VertexPtr \<Rightarrow> (toy_vertex \<Rightarrow> toy_vertex) \<Rightarrow> toy_world \<Rightarrow> toy_world" where
  "toy_change v f w = w\<lparr>tw_vertices := (tw_vertices w)[v := f (tw_vertices w ! v)]\<rparr>"

definition toy_fresh :: "bool \<Rightarrow> toy_vertex" where
  "toy_fresh isRoot =
     \<lparr>tv_allocated = True, tv_point = 0, tv_parent = None, tv_root = isRoot,
      tv_cost = (if isRoot then Fin 0 else PosInf), tv_failed = []\<rparr>"

definition toy_pop :: "toy_world \<Rightarrow> (toy_world, vertex_pair_t) queue_call" where
  "toy_pop w = (case tw_edges w of [] \<Rightarrow> Done (0, 0) w | e # es \<Rightarrow> Done e (w\<lparr>tw_edges := es\<rparr>))"

definition toy_expand ::
  "toy_world \<Rightarrow> (toy_world \<Rightarrow> (toy_world, 'a) queue_call) \<Rightarrow> (toy_world, 'a) queue_call" where
  "toy_expand w f =
     (if tw_edges w = [] then
        (case tw_unexpanded w of
           [] \<Rightarrow> f w
         | u # us \<Rightarrow>
             NearestSamples u (w\<lparr>tw_unexpanded := us\<rparr>)
               (\<lambda>near w'. f (w'\<lparr>tw_edges := map (Pair u) near\<rparr>)))
      else f w)"

definition toy_front :: "toy_world \<Rightarrow> vertex_pair_t" where
  "toy_front w = (case tw_edges w of [] \<Rightarrow> (0, 0) | e # es \<Rightarrow> e)"

definition toy_near :: "toy_world \<Rightarrow> ptr \<Rightarrow> VertexPtr \<Rightarrow> VertexPtr list" where
  "toy_near w nn v = filter (\<lambda>x. x \<noteq> v) (if nn = 3 then tw_samples w else tw_tree w)"

definition toy :: "(toy_world, toy_address) env" where
  "toy =
     \<lparr>fp_round = Fin,
      std_log = dlog,
      std_pow = dpow,
      e_double = Fin (exp 1),
      si_distance = toy_distance,
      si_checkMotion = (\<lambda>w a b. True),
      si_isValid = (\<lambda>w a. True),
      si_copyState = (\<lambda>dst src w. case (dst, src) of
          (Some (OfVertex d), Some s) \<Rightarrow> toy_change d (\<lambda>x. x\<lparr>tv_point := toy_point w s\<rparr>) w
        | _ \<Rightarrow> w),
      si_getStateDimension = (\<lambda>w. 1),
      si_getSpaceMeasure = (\<lambda>w. Fin 100),
      unitNBallMeasure = (\<lambda>d. Fin 2),
      opt_isSatisfied = (\<lambda>ob w c. False),
      opt_combineCosts = (\<lambda>ob a b. dadd a b),
      opt_combineCosts3 = (\<lambda>ob a b c. dadd (dadd a b) c),
      opt_motionCost = (\<lambda>ob w a b. dmul (Fin 2) (toy_distance w a b)),
      opt_motionCostHeuristic = (\<lambda>ob w a b. toy_heuristic w a b),
      opt_infiniteCost = (\<lambda>ob. PosInf),
      opt_allocInformedStateSampler = (\<lambda>ob pd w. (2, w)),
      sm_sampleUniform = (\<lambda>sm c st w. case st of
          Some (OfVertex a) \<Rightarrow> toy_change a (\<lambda>x. x\<lparr>tv_point := 5\<rparr>) w
        | _ \<Rightarrow> w),
      sm_hasInformedMeasure = (\<lambda>sm w. False),
      sm_getInformedMeasure = (\<lambda>sm c w. Fin 100),
      getDefaultNearestNeighbors =
        (\<lambda>w. (3 + tw_allocated w, w\<lparr>tw_allocated := tw_allocated w + 1\<rparr>)),
      nn_setDistanceFunction = (\<lambda>nn f w. w\<lparr>tw_installed := (nn, f) # tw_installed w\<rparr>),
      nn_add = (\<lambda>nn v w. if nn = 3 then w\<lparr>tw_samples := v # tw_samples w\<rparr>
                           else w\<lparr>tw_tree := v # tw_tree w\<rparr>),
      nn_remove = (\<lambda>nn v w. if nn = 3 then w\<lparr>tw_samples := removeAll v (tw_samples w)\<rparr>
                              else w\<lparr>tw_tree := removeAll v (tw_tree w)\<rparr>),
      nn_clear = (\<lambda>nn w. if nn = 3 then w\<lparr>tw_samples := []\<rparr> else w\<lparr>tw_tree := []\<rparr>),
      nn_list = (\<lambda>nn w. if nn = 3 then tw_samples w else tw_tree w),
      nn_size = (\<lambda>nn w. if nn = 3 then length (tw_samples w) else length (tw_tree w)),
      nn_nearestK = (\<lambda>nn v n w. toy_near w nn v),
      nn_nearestR = (\<lambda>nn v d w. toy_near w nn v),
      v_new = (\<lambda>ob isRoot w.
          (length (tw_vertices w), w\<lparr>tw_vertices := tw_vertices w @ [toy_fresh isRoot]\<rparr>)),
      v_state = toy_state,
      v_getCost = (\<lambda>w v. tv_cost (tw_vertices w ! v)),
      v_hasParent = (\<lambda>w v. tv_parent (tw_vertices w ! v) \<noteq> None),
      v_isRoot = (\<lambda>w v. tv_root (tw_vertices w ! v)),
      v_isConnected = (\<lambda>w v. tv_root (tw_vertices w ! v) \<or> tv_parent (tw_vertices w ! v) \<noteq> None),
      v_getParent = (\<lambda>w v. tv_parent (tw_vertices w ! v)),
      v_addChild = (\<lambda>v c upd w. w),
      v_removeChild = (\<lambda>v c upd w. w),
      v_addParent = (\<lambda>v par c upd w.
          toy_change v (\<lambda>x. x\<lparr>tv_parent := Some par,
                                tv_cost := dadd (tv_cost (tw_vertices w ! par)) c\<rparr>) w),
      v_removeParent = (\<lambda>v upd w. toy_change v (\<lambda>x. x\<lparr>tv_parent := None\<rparr>) w),
      v_markAsFailedChild = (\<lambda>v c w. toy_change v (\<lambda>x. x\<lparr>tv_failed := c # tv_failed x\<rparr>) w),
      v_markNew = (\<lambda>v w. w),
      q_new = (\<lambda>sv gv w. (5, w\<lparr>tw_unexpanded := [], tw_edges := [], tw_sorted := True\<rparr>)),
      q_setUseFailureTracking = (\<lambda>q b w. w),
      q_clear = (\<lambda>q w. w\<lparr>tw_unexpanded := [], tw_edges := [], tw_sorted := True\<rparr>),
      q_isEmpty = (\<lambda>q w. toy_expand w (\<lambda>w'. Done (tw_edges w' = []) w')),
      q_isSorted = (\<lambda>q w. Done (tw_sorted w) w),
      q_popFrontEdge = (\<lambda>q w. toy_expand w toy_pop),
      q_frontEdge = (\<lambda>q w. toy_expand w (\<lambda>w'. Done (toy_front w') w')),
      q_frontEdgeValue = (\<lambda>q w.
          (let e = toy_front w;
               g = dadd (tv_cost (tw_vertices w ! fst e))
                        (toy_heuristic w (toy_state w (fst e)) (toy_state w (snd e)))
           in Done (dadd g (toy_heuristic w (toy_state w (snd e)) (toy_state w 1)), g) w)),
      q_reset = (\<lambda>q w.
          Done () (w\<lparr>tw_unexpanded := tw_tree w, tw_edges := [], tw_sorted := True\<rparr>)),
      q_finish = (\<lambda>q w. Done () (w\<lparr>tw_unexpanded := [], tw_edges := []\<rparr>)),
      q_setThreshold = (\<lambda>q c w. Done () (w\<lparr>tw_threshold := c\<rparr>)),
      q_insertVertex = (\<lambda>q v w. Done () (w\<lparr>tw_unexpanded := tw_unexpanded w @ [v]\<rparr>)),
      q_pruneEdgesTo = (\<lambda>q v w. Done () (w\<lparr>tw_edges := filter (\<lambda>e. snd e \<noteq> v) (tw_edges w)\<rparr>)),
      q_markVertexUnsorted = (\<lambda>q v w. Done () (w\<lparr>tw_sorted := False\<rparr>)),
      q_samplePruneCondition = (\<lambda>q v w. Done False w),
      q_prune = (\<lambda>q vnn fnn w. Done (0, 0) w),
      q_resort = (\<lambda>q vnn fnn w. Done (0, 0) (w\<lparr>tw_sorted := True\<rparr>)),
      pd_getStartStateCount = (\<lambda>pd w. 1),
      pd_getStartState = (\<lambda>pd w i. Some OfStart),
      pd_getGoalState = (\<lambda>pd w. Some OfGoal),
      pd_hasOptimizationObjective = (\<lambda>pd w. True),
      pd_setPathLengthObjective = (\<lambda>pd w. w),
      pd_getOptimizationObjective = (\<lambda>pd w. 1),
      pd_addSolutionPath = (\<lambda>pd sol w. w\<lparr>tw_solutions := sol # tw_solutions w\<rparr>),
      Planner_setup = (\<lambda>w. w),
      Planner_clear = (\<lambda>w. w),
      pis_checkValidity = (\<lambda>w. None)\<rparr>"


text \<open>The world before the planner is set up: a start at 0, a goal at 10, and none of the
  planner's objects.\<close>

definition toy_world_new :: toy_world where
  "toy_world_new =
     \<lparr>tw_start = 0, tw_goal = 10, tw_vertices = [], tw_unexpanded = [], tw_edges = [],
      tw_sorted = True, tw_threshold = PosInf, tw_samples = [], tw_tree = [], tw_allocated = 0,
      tw_installed = [], tw_solutions = [], tw_stop = False\<rparr>"

text \<open>The planner and the world as \<^verbatim>\<open>setup()\<close> leaves them for this problem: the start is
  vertex 0 and the root of the tree, the goal is vertex 1 and the only sample.\<close>

definition toy_members :: members where
  "toy_members =
     \<lparr>m_pdef = 6, m_sampler = 2, m_opt = 1, m_startVertex = 0, m_goalVertex = 1,
      m_freeStateNN = 3, m_vertexNN = 4, m_intQueue = 5\<rparr>"

definition toy_planner0 :: BITstar where
  "toy_planner0 =
     BITstar_new\<lparr>pdef := Some 6, setup_flag := True, sampler := Some 2, opt := Some 1,
                  startVertex := Some 0, goalVertex := Some 1, freeStateNN := Some 3,
                  vertexNN := Some 4, intQueue := Some 5, r_member := Fin (110 * ln 2),
                  k_rgg := Fin (11 * exp 1 / 5), minCost := Fin 5, costSampled := PosInf,
                  numVertices := 1\<rparr>"

definition toy_sample :: "real \<Rightarrow> toy_vertex" where
  "toy_sample x = (toy_fresh False)\<lparr>tv_point := x\<rparr>"

definition toy_world_setup :: toy_world where
  "toy_world_setup =
     toy_world_new\<lparr>tw_vertices := [toy_fresh True, toy_sample 10],
                    tw_unexpanded := [0],
                    tw_samples := [1],
                    tw_tree := [0],
                    tw_allocated := 2,
                    tw_installed := [(4, NnDistance), (3, NnDistance)]\<rparr>"

text \<open>The same world with three more samples at 4, 12 and 30 and a vertex whose state is not
  allocated, after the start was expanded: every edge from the start is queued.\<close>

definition toy_world0 :: toy_world where
  "toy_world0 =
     toy_world_setup\<lparr>tw_vertices :=
                        [toy_fresh True, toy_sample 10, toy_sample 4, toy_sample 12,
                         toy_sample 30, (toy_sample 0)\<lparr>tv_allocated := False\<rparr>],
                      tw_unexpanded := [],
                      tw_edges := [(0, 1), (0, 2), (0, 3), (0, 4)],
                      tw_samples := [1, 2, 3, 4]\<rparr>"

text \<open>The same after the edge from the start to the goal was added: a solution of cost 10.\<close>

definition toy_planner1 :: BITstar where
  "toy_planner1 =
     toy_planner0\<lparr>bestCost := Fin 10, hasSolution := True, numIterations := 1,
                   numVertices := 2, numEdgeCollisionChecks := 1\<rparr>"

definition toy_world1 :: toy_world where
  "toy_world1 =
     toy_world0\<lparr>tw_vertices :=
                   [toy_fresh True, (toy_sample 10)\<lparr>tv_parent := Some 0, tv_cost := Fin 10\<rparr>,
                    toy_sample 4, toy_sample 12, toy_sample 30,
                    (toy_sample 0)\<lparr>tv_allocated := False\<rparr>],
                 tw_unexpanded := [1],
                 tw_edges := [(0, 2), (0, 3), (0, 4)],
                 tw_threshold := Fin 10,
                 tw_samples := [2, 3, 4],
                 tw_tree := [1, 0]\<rparr>"


text \<open>A planner that holds a solution of cost 12 while the goal vertex of \<open>toy_world0\<close> is
  detached from the tree (its cost is infinite).\<close>

definition toy_planner_detached :: BITstar where
  "toy_planner_detached = toy_planner0\<lparr>bestCost := Fin 12, hasSolution := True\<rparr>"

subsection \<open>The conditions the properties speak about\<close>

text \<open>
  The two admissibility tests of \<^verbatim>\<open>solve\<close> on an edge, as functions of the cost \<open>c\<close> they
  compare with: \<open>gate_A\<close> uses the tree cost of the source and the heuristic edge cost, \<open>gate_B\<close>
  the heuristic cost-to-come of the source and the true edge cost.
\<close>

definition gate_A :: "('w, 's) env \<Rightarrow> members \<Rightarrow> 'w \<Rightarrow> vertex_pair_t \<Rightarrow> cost \<Rightarrow> bool" where
  "gate_A env m w e c =
     isCostBetterThan
       (opt_combineCosts3 env (m_opt m) (v_getCost env w (fst e)) (edgeCostHeuristic env m w e)
          (costToGoHeuristic env m w (snd e))) c"

definition gate_B :: "('w, 's) env \<Rightarrow> members \<Rightarrow> 'w \<Rightarrow> vertex_pair_t \<Rightarrow> cost \<Rightarrow> bool" where
  "gate_B env m w e c =
     isCostBetterThan
       (opt_combineCosts3 env (m_opt m) (costToComeHeuristic env m w (fst e))
          (trueEdgeCost env w e) (costToGoHeuristic env m w (snd e))) c"

text \<open>What \<^verbatim>\<open>solve\<close> does with an edge that fails the first test: resort a queue that is not
  sorted, finish the batch otherwise.\<close>

definition resort_or_finish ::
  "('w, 's) env \<Rightarrow> members \<Rightarrow> BITstar \<Rightarrow> 'w \<Rightarrow> (abort + bool) \<times> BITstar \<times> 'w" where
  "resort_or_finish env m p w =
     (let (isSorted, p1, w1) = run env m (q_isSorted env (m_intQueue m) w) p
      in if \<not> isSorted then (let (p2, w2) = resort env m p1 w1 in (Inr False, p2, w2))
         else (let (u, p2, w2) = run env m (q_finish env (m_intQueue m) w1) p1
               in (Inr False, p2, w2)))"

text \<open>
  When \<^verbatim>\<open>prune\<close> sweeps. \<open>prune_trigger_as_specified\<close> follows the words of the
  specification, which compares the fractional change itself with the prune fraction;
  \<open>prune_trigger\<close> compares its absolute value.
\<close>

definition informed_subset_smaller :: "('w, 's) env \<Rightarrow> members \<Rightarrow> BITstar \<Rightarrow> 'w \<Rightarrow> bool" where
  "informed_subset_smaller env m p w =
     (\<not> sm_hasInformedMeasure env (m_sampler m) w
      \<or> dless (sm_getInformedMeasure env (m_sampler m) (bestCost p) w) (si_getSpaceMeasure env w))"


definition prune_trigger :: "('w, 's) env \<Rightarrow> members \<Rightarrow> BITstar \<Rightarrow> 'w \<Rightarrow> bool" where
  "prune_trigger env m p w =
     (usePruning p \<and> hasSolution p
      \<and> dless (pruneFraction p) (dabs (fractionalChange env m (bestCost p) (prunedCost p)))
      \<and> informed_subset_smaller env m p w)"

text \<open>The sweep of \<^verbatim>\<open>prune\<close>: count it, prune the samples, prune the graph through the queue,
  add what the queue pruned to the counters, and store the cost pruned at.\<close>

definition prune_sweep :: "('w, 's) env \<Rightarrow> members \<Rightarrow> BITstar \<Rightarrow> 'w \<Rightarrow> BITstar \<times> 'w" where
  "prune_sweep env m p w =
     (let (p2, w2) = pruneSamples env m (p\<lparr>numPrunings := numPrunings p + 1\<rparr>) w;
          (numPruned, p3, w3) =
             run env m (q_prune env (m_intQueue m) (m_vertexNN m) (m_freeStateNN m) w2) p2
      in (p3\<lparr>numVerticesDisconnected := numVerticesDisconnected p3 + fst numPruned,
              numFreeStatesPruned := numFreeStatesPruned p3 + snd numPruned,
              prunedCost := bestCost p3\<rparr>, w3))"

text \<open>\<open>solution_progress p p'\<close>: from \<open>p\<close> to \<open>p'\<close> the members describing the solution are
  the same, or the best cost has become strictly better and a solution is held.\<close>

definition solution_progress :: "BITstar \<Rightarrow> BITstar \<Rightarrow> bool" where
  "solution_progress p p' =
     (solution_members p' = solution_members p
      \<or> (isCostBetterThan (bestCost p') (bestCost p) \<and> hasSolution p'
         \<and> approximateSoln p' = (hasSolution p \<and> approximateSoln p)))"

text \<open>
  The remaining tests of \<^verbatim>\<open>solve\<close> on an edge (the motion is free of collision; the edge
  improves the tree cost of its target) and the two ways in which the cascade ends for an edge
  that passes the first test: the edge is dropped, recorded as failed when failures are tracked,
  or it is added with the given cost, after which the solution is checked for an improvement and
  the queued edges to its target are pruned.
\<close>

definition improves_tree :: "('w, 's) env \<Rightarrow> members \<Rightarrow> 'w \<Rightarrow> vertex_pair_t \<Rightarrow> bool" where
  "improves_tree env m w e =
     isCostBetterThan
       (opt_combineCosts env (m_opt m) (v_getCost env w (fst e)) (trueEdgeCost env w e))
       (v_getCost env w (snd e))"

definition edge_free :: "('w, 's) env \<Rightarrow> 'w \<Rightarrow> vertex_pair_t \<Rightarrow> bool" where
  "edge_free env w e = si_checkMotion env w (v_state env w (fst e)) (v_state env w (snd e))"

definition discard_edge ::
  "('w, 's) env \<Rightarrow> vertex_pair_t \<Rightarrow> BITstar \<Rightarrow> 'w \<Rightarrow> (abort + bool) \<times> BITstar \<times> 'w" where
  "discard_edge env e p w =
     (Inr False, p,
      if useFailureTracking p then v_markAsFailedChild env (fst e) (snd e) w else w)"

definition add_edge_and_check ::
  "('w, 's) env \<Rightarrow> members \<Rightarrow> vertex_pair_t \<Rightarrow> cost \<Rightarrow> BITstar \<Rightarrow> 'w
     \<Rightarrow> (abort + bool) \<times> BITstar \<times> 'w" where
  "add_edge_and_check env m e c p w =
     (case addEdge env m e c True True p w of
        (Inl a, p2, w2) \<Rightarrow> (Inl a, p2, w2)
      | (Inr u, p2, w2) \<Rightarrow>
          (let (stopLoop, p3, w3) = solve_improved env m p2 w2;
               (u', p4, w4) = run env m (q_pruneEdgesTo env (m_intQueue m) (snd e) w3) p3
           in (Inr stopLoop, p4, w4)))"

section \<open>Properties\<close>

subsection \<open>Frames\<close>

lemma callbacks_only_refl: "callbacks_only p p"
  by (simp add: callbacks_only_def)

lemma callbacks_only_trans: "callbacks_only p p1 \<Longrightarrow> callbacks_only p1 p2 \<Longrightarrow> callbacks_only p p2"
  by (simp add: callbacks_only_def)

lemma generateSamples_callbacks:
  "callbacks_only p (fst (generateSamples env m n p w))"
proof (induction n arbitrary: p w)
  case 0
  show ?case by (simp add: callbacks_only_def)
next
  case (Suc n)
  have step: "callbacks_only p (p\<lparr>numStateCollisionChecks := numStateCollisionChecks p + 1\<rparr>)"
    by (simp add: callbacks_only_def blank_callback_members_def)
  show ?case
    by (auto simp: Let_def split: prod.splits intro: callbacks_only_trans [OF step Suc.IH])
qed

lemma updateNearestTerms_callbacks: "callbacks_only p (updateNearestTerms env m p w)"
  by (simp add: updateNearestTerms_def callbacks_only_def blank_callback_members_def Let_def)

lemma updateSamples_callbacks: "callbacks_only p (fst (updateSamples env m v p w))"
proof (cases "isCostBetterThan (costSampled p) (bestCost p)")
  case False
  then show ?thesis by (simp add: updateSamples_def callbacks_only_refl)
next
  case True
  let ?p1 = "p\<lparr>numSamples := numSamples p + samplesPerBatch p\<rparr>"
  obtain p2 w2 where g: "generateSamples env m (unat (samplesPerBatch ?p1)) ?p1 w = (p2, w2)"
    by (cases "generateSamples env m (unat (samplesPerBatch ?p1)) ?p1 w")
  have a: "callbacks_only p ?p1"
    by (simp add: callbacks_only_def blank_callback_members_def)
  have b: "callbacks_only ?p1 p2"
    using generateSamples_callbacks [of ?p1 env m "unat (samplesPerBatch ?p1)" w] g by simp
  have c: "callbacks_only p2 (p2\<lparr>costSampled := opt_infiniteCost env (m_opt m)\<rparr>)"
    by (simp add: callbacks_only_def blank_callback_members_def)
  have d: "callbacks_only (p2\<lparr>costSampled := opt_infiniteCost env (m_opt m)\<rparr>)
             (updateNearestTerms env m (p2\<lparr>costSampled := opt_infiniteCost env (m_opt m)\<rparr>) w2)"
    by (rule updateNearestTerms_callbacks)
  have "fst (updateSamples env m v p w)
          = updateNearestTerms env m (p2\<lparr>costSampled := opt_infiniteCost env (m_opt m)\<rparr>) w2"
    using True g by (simp add: updateSamples_def Let_def)
  then show ?thesis
    using a b c d by (metis callbacks_only_trans)
qed

lemma nearestSamples_callbacks: "callbacks_only p (fst (snd (nearestSamples env m v p w)))"
proof -
  obtain p1 w1 where u: "updateSamples env m v p w = (p1, w1)"
    by (cases "updateSamples env m v p w")
  have a: "callbacks_only p p1"
    using updateSamples_callbacks [of p env m v w] u by simp
  have b: "callbacks_only p1 (p1\<lparr>numNearestNeighbours := numNearestNeighbours p1 + 1\<rparr>)"
    by (simp add: callbacks_only_def blank_callback_members_def)
  show ?thesis
    using u callbacks_only_trans [OF a b] by (simp add: nearestSamples_def Let_def)
qed

lemma nearestVertices_callbacks: "callbacks_only p (fst (snd (nearestVertices env m v p w)))"
  by (simp add: nearestVertices_def Let_def callbacks_only_def blank_callback_members_def)

lemma run_callbacks: "callbacks_only p (fst (snd (run env m c p)))"
proof (induction c arbitrary: p)
  case (Done a w)
  show ?case by (simp add: callbacks_only_refl)
next
  case (NearestSamples v w cont)
  obtain ns p1 w1 where n: "nearestSamples env m v p w = (ns, p1, w1)"
    by (cases "nearestSamples env m v p w")
  have a: "callbacks_only p p1"
    using nearestSamples_callbacks [of p env m v w] n by simp
  have b: "callbacks_only p1 (fst (snd (run env m (cont ns w1) p1)))"
    by (rule NearestSamples.IH [OF rangeI rangeI])
  show ?case using n callbacks_only_trans [OF a b] by simp
next
  case (NearestVertices v w cont)
  obtain ns p1 w1 where n: "nearestVertices env m v p w = (ns, p1, w1)"
    by (cases "nearestVertices env m v p w")
  have a: "callbacks_only p p1"
    using nearestVertices_callbacks [of p env m v w] n by simp
  have b: "callbacks_only p1 (fst (snd (run env m (cont ns w1) p1)))"
    by (rule NearestVertices.IH [OF rangeI rangeI])
  show ?case using n callbacks_only_trans [OF a b] by simp
qed

lemma pruning_only_refl: "pruning_only p p"
  by (simp add: pruning_only_def)

lemma pruning_only_trans: "pruning_only p p1 \<Longrightarrow> pruning_only p1 p2 \<Longrightarrow> pruning_only p p2"
  by (simp add: pruning_only_def)

lemma bookkeeping_only_refl: "bookkeeping_only p p"
  by (simp add: bookkeeping_only_def)

lemma bookkeeping_only_trans:
  "bookkeeping_only p p1 \<Longrightarrow> bookkeeping_only p1 p2 \<Longrightarrow> bookkeeping_only p p2"
  by (simp add: bookkeeping_only_def)

lemma callbacks_pruning: "callbacks_only p p' \<Longrightarrow> pruning_only p p'"
  by (simp add: callbacks_only_def pruning_only_def blank_pruning_members_def)

lemma pruning_bookkeeping: "pruning_only p p' \<Longrightarrow> bookkeeping_only p p'"
  by (simp add: pruning_only_def bookkeeping_only_def blank_bookkeeping_def)

lemma callbacks_bookkeeping: "callbacks_only p p' \<Longrightarrow> bookkeeping_only p p'"
  by (simp add: callbacks_pruning pruning_bookkeeping)

lemma bookkeeping_solution:
  assumes "bookkeeping_only p p'"
  shows "solution_members p' = solution_members p"
proof -
  have "solution_members (blank_bookkeeping p') = solution_members (blank_bookkeeping p)"
    using assms by (simp add: bookkeeping_only_def)
  then show ?thesis
    by (simp add: solution_members_def blank_bookkeeping_def blank_pruning_members_def
        blank_callback_members_def)
qed

lemma bookkeeping_configuration:
  assumes "bookkeeping_only p p'"
  shows "configuration p' = configuration p"
proof -
  have "configuration (blank_bookkeeping p') = configuration (blank_bookkeeping p)"
    using assms by (simp add: bookkeeping_only_def)
  then show ?thesis
    by (simp add: configuration_def blank_bookkeeping_def blank_pruning_members_def
        blank_callback_members_def)
qed

lemma bookkeeping_minCost:
  assumes "bookkeeping_only p p'"
  shows "minCost p' = minCost p"
proof -
  have "minCost (blank_bookkeeping p') = minCost (blank_bookkeeping p)"
    using assms by (simp add: bookkeeping_only_def)
  then show ?thesis
    by (simp add: blank_bookkeeping_def blank_pruning_members_def blank_callback_members_def)
qed


lemma pruning_numEdgeCollisionChecks:
  assumes "pruning_only p p'"
  shows "numEdgeCollisionChecks p' = numEdgeCollisionChecks p"
proof -
  have "numEdgeCollisionChecks (blank_pruning_members p')
          = numEdgeCollisionChecks (blank_pruning_members p)"
    using assms by (simp add: pruning_only_def)
  then show ?thesis
    by (simp add: blank_pruning_members_def blank_callback_members_def)
qed

lemma callbacks_numVertices:
  assumes "callbacks_only p p'"
  shows "numVertices p' = numVertices p"
proof -
  have "numVertices (blank_callback_members p') = numVertices (blank_callback_members p)"
    using assms by (simp add: callbacks_only_def)
  then show ?thesis
    by (simp add: blank_callback_members_def)
qed

lemma run_eq_callbacks: "run env m c p = (a, p', w') \<Longrightarrow> callbacks_only p p'"
  using run_callbacks [of p env m c] by simp

lemma resort_pruning: "resort env m p w = (p', w') \<Longrightarrow> pruning_only p p'"
proof -
  assume r: "resort env m p w = (p', w')"
  obtain np p1 w1 where q:
    "run env m (q_resort env (m_intQueue m) (m_vertexNN m) (m_freeStateNN m) w) p = (np, p1, w1)"
    by (cases "run env m (q_resort env (m_intQueue m) (m_vertexNN m) (m_freeStateNN m) w) p")
  have a: "pruning_only p p1"
    using run_eq_callbacks [OF q] by (rule callbacks_pruning)
  have "p' = p1\<lparr>numVerticesDisconnected := numVerticesDisconnected p1 + fst np,
                 numFreeStatesPruned := numFreeStatesPruned p1 + snd np\<rparr>"
    using r q by (auto simp: resort_def Let_def)
  then have b: "pruning_only p1 p'"
    by (simp add: pruning_only_def blank_pruning_members_def blank_callback_members_def)
  show ?thesis by (rule pruning_only_trans [OF a b])
qed

lemma dropSample_pruning: "dropSample env m s p w = (p', w') \<Longrightarrow> pruning_only p p'"
  by (auto simp: dropSample_def pruning_only_def blank_pruning_members_def
      blank_callback_members_def)

lemma pruneSamples_loop_pruning:
  "pruneSamples_loop env m ss p w = (p', w') \<Longrightarrow> pruning_only p p'"
proof (induction ss arbitrary: p w)
  case Nil
  then show ?case by (simp add: pruning_only_refl)
next
  case (Cons s ss)
  obtain c p1 w1 where q:
    "run env m (q_samplePruneCondition env (m_intQueue m) s w) p = (c, p1, w1)"
    by (cases "run env m (q_samplePruneCondition env (m_intQueue m) s w) p")
  obtain p2 w2 where d: "(if c then dropSample env m s p1 w1 else (p1, w1)) = (p2, w2)"
    by (cases "if c then dropSample env m s p1 w1 else (p1, w1)")
  have a: "pruning_only p p1"
    using run_eq_callbacks [OF q] by (rule callbacks_pruning)
  have b: "pruning_only p1 p2"
    using d by (auto split: if_splits intro: dropSample_pruning pruning_only_refl)
  have "pruneSamples_loop env m ss p2 w2 = (p', w')"
    using Cons.prems q d by (simp add: Let_def)
  then have c: "pruning_only p2 p'" by (rule Cons.IH)
  show ?case by (rule pruning_only_trans [OF pruning_only_trans [OF a b] c])
qed

lemma pruneSamples_pruning: "pruneSamples env m p w = (p', w') \<Longrightarrow> pruning_only p p'"
  unfolding pruneSamples_def by (rule pruneSamples_loop_pruning)

subsection \<open>Evaluating the small instance\<close>

lemmas toy_defs = toy_def toy_members_def toy_planner0_def toy_world0_def toy_planner1_def
  toy_world1_def toy_world_new_def toy_world_setup_def toy_sample_def toy_fresh_def toy_state_def toy_distance_def toy_heuristic_def
  toy_change_def toy_pop_def toy_front_def toy_expand_def toy_near_def BITstar_new_def
  rounded_def fadd_def fmul_def fdiv_def

lemmas setup_defs = setup_planner_def addSample_def addVertex_def initializeNearestTerms_def
  updateNearestTerms_def costToComeHeuristic_def r_def k_def minimumRggR_def minimumRggK_def
  double_of_uint_def Let_def

lemma toy_setup:
  "setup_planner toy (BITstar_new\<lparr>pdef := Some 6\<rparr>) toy_world_new
     = (Inr (), toy_planner0, toy_world_setup)"
  by (simp add: setup_defs toy_defs)


subsection \<open>The distance function of the nearest-neighbour structures\<close>

text \<open>
  Claim C10. Whatever distance function is installed in a nearest-neighbour structure is
  \<^verbatim>\<open>nnDistance\<close> (\<^verbatim>\<open>setup()\<close> installs it in both structures), and \<^verbatim>\<open>nnDistance(a, b)\<close> is
  the state space's distance from the state of \<open>b\<close> to the state of \<open>a\<close> when both states are
  allocated, and raises an exception when one of them is not.
\<close>

theorem nnDistance_reverses_arguments:
  "call_distance_function env f w a b = nnDistance env w a b
   \<and> (v_state env w a \<noteq> None \<and> v_state env w b \<noteq> None \<longrightarrow>
        nnDistance env w a b = Inr (si_distance env w (v_state env w b) (v_state env w a)))
   \<and> (v_state env w a = None \<or> v_state env w b = None \<longrightarrow>
        (\<exists>msg. nnDistance env w a b = Inl (Exception msg)))"
  by (cases f) (simp add: nnDistance_def)


text \<open>In the small instance the distance from 12 to 4 is 16 and from 4 to 12 is 8;
  \<^verbatim>\<open>nnDistance\<close> of the vertices at 4 and 12 is 16. Vertex 5 has no state. After \<^verbatim>\<open>setup()\<close>
  the sample index (at address 3) and the vertex index (at address 4) both hold the function.\<close>

theorem nnDistance_reverses_arguments_witness:
  "v_state toy toy_world0 2 \<noteq> None \<and> v_state toy toy_world0 3 \<noteq> None
   \<and> v_state toy toy_world0 5 = None
   \<and> nnDistance toy toy_world0 2 3 = Inr (Fin 16)
   \<and> si_distance toy toy_world0 (v_state toy toy_world0 3) (v_state toy toy_world0 2) = Fin 16
   \<and> si_distance toy toy_world0 (v_state toy toy_world0 2) (v_state toy toy_world0 3) = Fin 8
   \<and> call_distance_function toy NnDistance toy_world0 5 3 = Inl (Exception ''a->state is unallocated'')
   \<and> call_distance_function toy NnDistance toy_world0 3 5 = Inl (Exception ''b->state is unallocated'')
   \<and> setup_planner toy (BITstar_new\<lparr>pdef := Some 6\<rparr>) toy_world_new
       = (Inr (), toy_planner0, toy_world_setup)
   \<and> freeStateNN toy_planner0 = Some 3 \<and> vertexNN toy_planner0 = Some 4
   \<and> tw_installed toy_world_setup = [(4, NnDistance), (3, NnDistance)]"
  using nnDistance_reverses_arguments [of toy NnDistance toy_world0 2 3]
    nnDistance_reverses_arguments [of toy NnDistance toy_world0 5 3]
    nnDistance_reverses_arguments [of toy NnDistance toy_world0 3 5]
    toy_setup
  by (simp add: nnDistance_def toy_defs)


subsection \<open>\<^verbatim>\<open>clear\<close>\<close>

text \<open>
  Claim C8. \<^verbatim>\<open>clear()\<close> leaves the planner as the constructor made it, except for the eight
  configuration parameters (and the problem definition of the base class), which keep their
  values: the sampler, the objective, the start and goal vertices, both nearest-neighbour
  structures and the queue are released, all costs and counters have their initial values, and
  the planner is marked as not set up. The nearest-neighbour structures and the queue that were
  allocated are cleared before they are released.
\<close>

theorem clear_keeps_configuration:
  "fst (clear env p w) =
     BITstar_new\<lparr>pdef := pdef p,
                  useStrictQueueOrdering := useStrictQueueOrdering p,
                  rewireFactor := rewireFactor p,
                  samplesPerBatch := samplesPerBatch p,
                  useFailureTracking := useFailureTracking p,
                  useKNearest := useKNearest p,
                  usePruning := usePruning p,
                  pruneFraction := pruneFraction p,
                  stopOnSolnChange := stopOnSolnChange p\<rparr>
   \<and> configuration (fst (clear env p w)) = configuration p
   \<and> snd (clear env p w) =
       Planner_clear env
         ((case intQueue p of Some q \<Rightarrow> q_clear env q | None \<Rightarrow> id)
            ((case vertexNN p of Some nn \<Rightarrow> nn_clear env nn | None \<Rightarrow> id)
               ((case freeStateNN p of Some nn \<Rightarrow> nn_clear env nn | None \<Rightarrow> id) w)))"
  by (cases p) (simp add: clear_def BITstar_new_def configuration_def Let_def split: option.splits)


subsection \<open>\<^verbatim>\<open>addVertex\<close>\<close>

text \<open>
  Claim C6. \<^verbatim>\<open>addVertex\<close> on a vertex with neither a parent nor the root flag raises an
  exception and changes neither the members (so not the vertex counter) nor the store (so none
  of the sample index, the vertex index and the queue). On a vertex with a parent or the root
  flag it returns normally, with the vertex counter one higher.
\<close>

theorem addVertex_requires_connection:
  "(\<not> v_hasParent env w v \<and> \<not> v_isRoot env w v \<longrightarrow>
      addVertex env m v removeFromFree updateExpansionQueue p w
        = (Inl (Exception ''Vertices must be connected to the graph before adding''), p, w))
   \<and> (v_hasParent env w v \<or> v_isRoot env w v \<longrightarrow>
      (\<exists>p' w'. addVertex env m v removeFromFree updateExpansionQueue p w = (Inr (), p', w')
         \<and> numVertices p' = numVertices p + 1))"
proof (intro conjI impI)
  assume "\<not> v_hasParent env w v \<and> \<not> v_isRoot env w v"
  then show "addVertex env m v removeFromFree updateExpansionQueue p w
        = (Inl (Exception ''Vertices must be connected to the graph before adding''), p, w)"
    by (simp add: addVertex_def)
next
  assume c: "v_hasParent env w v \<or> v_isRoot env w v"
  let ?w2 = "nn_add env (m_vertexNN m) v
               (if removeFromFree then nn_remove env (m_freeStateNN m) v w else w)"
  show "\<exists>p' w'. addVertex env m v removeFromFree updateExpansionQueue p w = (Inr (), p', w')
         \<and> numVertices p' = numVertices p + 1"
  proof (cases updateExpansionQueue)
    case False
    with c show ?thesis by (auto simp: addVertex_def Let_def)
  next
    case True
    obtain u p1 w1 where q: "run env m (q_insertVertex env (m_intQueue m) v ?w2) p = (u, p1, w1)"
      by (cases "run env m (q_insertVertex env (m_intQueue m) v ?w2) p")
    have "numVertices p1 = numVertices p"
      using run_eq_callbacks [OF q] by (rule callbacks_numVertices)
    with c True q show ?thesis by (auto simp: addVertex_def Let_def)
  qed
qed


text \<open>In the small instance vertex 2 is an unconnected sample and vertex 0 is the root.\<close>

theorem addVertex_requires_connection_witness:
  "\<not> v_hasParent toy toy_world0 2 \<and> \<not> v_isRoot toy toy_world0 2
   \<and> addVertex toy toy_members 2 True True toy_planner0 toy_world0
       = (Inl (Exception ''Vertices must be connected to the graph before adding''),
          toy_planner0, toy_world0)
   \<and> v_isRoot toy toy_world0 0
   \<and> addVertex toy toy_members 0 False True toy_planner0 toy_world0
       = (Inr (), toy_planner0\<lparr>numVertices := 2\<rparr>,
          toy_world0\<lparr>tw_unexpanded := [0], tw_tree := [0, 0]\<rparr>)"
  using addVertex_requires_connection [of toy toy_world0 2 toy_members True True toy_planner0]
    addVertex_requires_connection [of toy toy_world0 0 toy_members False True toy_planner0]
  by (simp add: addVertex_def toy_defs)


subsection \<open>Looking at the queue\<close>

text \<open>
  Claim C9. With \<open>isEmpty\<close> the answer of the queue's \<^verbatim>\<open>isEmpty()\<close>, asked after the resort that
  strict queue ordering forces: when the queue is empty, \<^verbatim>\<open>getNextEdgeInQueue\<close> returns the pair
  of null pointers and \<^verbatim>\<open>getNextEdgeValueInQueue\<close> the infinite cost of the objective; when it is
  not, they return the states of the two vertices of the queue's front edge and the first
  component of the front edge's key.
\<close>

theorem next_edge_in_queue:
  assumes "(if useStrictQueueOrdering p then resort env m p w else (p, w)) = (p1, w1)"
    and "run env m (q_isEmpty env (m_intQueue m) w1) p1 = (isEmpty, p2, w2)"
  shows "(isEmpty \<longrightarrow>
            getNextEdgeInQueue env m p w = ((None, None), p2, w2)
          \<and> getNextEdgeValueInQueue env m p w = (opt_infiniteCost env (m_opt m), p2, w2))
       \<and> (\<not> isEmpty \<and> run env m (q_frontEdge env (m_intQueue m) w2) p2 = (e1, p3, w3)
             \<and> run env m (q_frontEdge env (m_intQueue m) w3) p3 = (e2, p4, w4) \<longrightarrow>
            getNextEdgeInQueue env m p w
              = ((v_state env w3 (fst e1), v_state env w4 (snd e2)), p4, w4))
       \<and> (\<not> isEmpty \<and> run env m (q_frontEdgeValue env (m_intQueue m) w2) p2 = (key, p5, w5) \<longrightarrow>
            getNextEdgeValueInQueue env m p w = (fst key, p5, w5))"
  using assms by (simp add: getNextEdgeInQueue_def getNextEdgeValueInQueue_def Let_def)


text \<open>In the small instance the front edge goes from vertex 0 to vertex 1 and its key is 5.\<close>

theorem next_edge_in_queue_witness:
  "getNextEdgeInQueue toy toy_members toy_planner0 toy_world0
     = ((Some (OfVertex 0), Some (OfVertex 1)), toy_planner0, toy_world0)
   \<and> getNextEdgeValueInQueue toy toy_members toy_planner0 toy_world0
     = (Fin 5, toy_planner0, toy_world0)
   \<and> getNextEdgeInQueue toy toy_members toy_planner0 (toy_world0\<lparr>tw_edges := []\<rparr>)
     = ((None, None), toy_planner0, toy_world0\<lparr>tw_edges := []\<rparr>)
   \<and> getNextEdgeValueInQueue toy toy_members toy_planner0 (toy_world0\<lparr>tw_edges := []\<rparr>)
     = (PosInf, toy_planner0, toy_world0\<lparr>tw_edges := []\<rparr>)
   \<and> getNextEdgeInQueue toy toy_members (toy_planner0\<lparr>useStrictQueueOrdering := True\<rparr>)
        (toy_world0\<lparr>tw_sorted := False\<rparr>)
     = ((Some (OfVertex 0), Some (OfVertex 1)), toy_planner0\<lparr>useStrictQueueOrdering := True\<rparr>, toy_world0)"
proof -
  have a: "(if useStrictQueueOrdering toy_planner0 then resort toy toy_members toy_planner0 toy_world0
            else (toy_planner0, toy_world0)) = (toy_planner0, toy_world0)"
    by (simp add: toy_defs)
  have b: "run toy toy_members (q_isEmpty toy (m_intQueue toy_members) toy_world0) toy_planner0
             = (False, toy_planner0, toy_world0)"
    by (simp add: toy_defs)
  have c: "run toy toy_members (q_frontEdge toy (m_intQueue toy_members) toy_world0) toy_planner0
             = ((0, 1), toy_planner0, toy_world0)"
    by (simp add: toy_defs)
  have d: "run toy toy_members (q_frontEdgeValue toy (m_intQueue toy_members) toy_world0) toy_planner0
             = ((Fin 5, Fin 5), toy_planner0, toy_world0)"
    by (simp add: toy_defs Let_def)
  have a': "(if useStrictQueueOrdering toy_planner0
             then resort toy toy_members toy_planner0 (toy_world0\<lparr>tw_edges := []\<rparr>)
             else (toy_planner0, toy_world0\<lparr>tw_edges := []\<rparr>))
            = (toy_planner0, toy_world0\<lparr>tw_edges := []\<rparr>)"
    by (simp add: toy_defs)
  have b': "run toy toy_members (q_isEmpty toy (m_intQueue toy_members) (toy_world0\<lparr>tw_edges := []\<rparr>))
              toy_planner0 = (True, toy_planner0, toy_world0\<lparr>tw_edges := []\<rparr>)"
    by (simp add: toy_defs)
  have a'': "(if useStrictQueueOrdering (toy_planner0\<lparr>useStrictQueueOrdering := True\<rparr>)
              then resort toy toy_members (toy_planner0\<lparr>useStrictQueueOrdering := True\<rparr>)
                     (toy_world0\<lparr>tw_sorted := False\<rparr>)
              else (toy_planner0\<lparr>useStrictQueueOrdering := True\<rparr>, toy_world0\<lparr>tw_sorted := False\<rparr>))
             = (toy_planner0\<lparr>useStrictQueueOrdering := True\<rparr>, toy_world0)"
    by (simp add: toy_defs resort_def Let_def)
  have b'': "run toy toy_members (q_isEmpty toy (m_intQueue toy_members) toy_world0)
               (toy_planner0\<lparr>useStrictQueueOrdering := True\<rparr>)
             = (False, toy_planner0\<lparr>useStrictQueueOrdering := True\<rparr>, toy_world0)"
    by (simp add: toy_defs)
  have c'': "run toy toy_members (q_frontEdge toy (m_intQueue toy_members) toy_world0)
               (toy_planner0\<lparr>useStrictQueueOrdering := True\<rparr>)
             = ((0, 1), toy_planner0\<lparr>useStrictQueueOrdering := True\<rparr>, toy_world0)"
    by (simp add: toy_defs)
  have s: "v_state toy toy_world0 0 = Some (OfVertex 0)" "v_state toy toy_world0 1 = Some (OfVertex 1)"
    "opt_infiniteCost toy (m_opt toy_members) = PosInf"
    by (simp_all add: toy_defs)
  show ?thesis
    using next_edge_in_queue [OF a b, of "(0, 1)" toy_planner0 toy_world0 "(0, 1)" toy_planner0
        toy_world0 "(Fin 5, Fin 5)" toy_planner0 toy_world0]
      next_edge_in_queue [OF a' b']
      next_edge_in_queue [OF a'' b'', of "(0, 1)" "toy_planner0\<lparr>useStrictQueueOrdering := True\<rparr>"
        toy_world0 "(0, 1)" "toy_planner0\<lparr>useStrictQueueOrdering := True\<rparr>" toy_world0]
      c d c'' s
    by simp
qed

subsection \<open>\<^verbatim>\<open>prune\<close>\<close>





lemma prune_cases:
  "prune env m p w = (if prune_trigger env m p w then prune_sweep env m p w else (p, w))"
  by (auto simp: prune_def prune_trigger_def prune_sweep_def informed_subset_smaller_def Let_def
      split: prod.splits)







subsection \<open>Frames of the steps of \<^verbatim>\<open>solve\<close>\<close>

lemmas bookkeeping_defs = bookkeeping_only_def blank_bookkeeping_def blank_pruning_members_def
  blank_callback_members_def

lemma dless_irrefl: "\<not> dless a a"
  by (cases a) simp_all

lemma dless_trans: "dless a b \<Longrightarrow> dless b c \<Longrightarrow> dless a c"
  by (cases a; cases b; cases c) simp_all

lemma prune_sweep_bookkeeping:
  assumes "prune_sweep env m p w = (p', w')"
  shows "bookkeeping_only p p'"
proof -
  let ?p1 = "p\<lparr>numPrunings := numPrunings p + 1\<rparr>"
  obtain p2 w2 where s: "pruneSamples env m ?p1 w = (p2, w2)"
    by (cases "pruneSamples env m ?p1 w")
  obtain np p3 w3 where q:
    "run env m (q_prune env (m_intQueue m) (m_vertexNN m) (m_freeStateNN m) w2) p2 = (np, p3, w3)"
    by (cases "run env m (q_prune env (m_intQueue m) (m_vertexNN m) (m_freeStateNN m) w2) p2")
  have a: "bookkeeping_only p ?p1"
    by (simp add: bookkeeping_defs)
  have b: "bookkeeping_only ?p1 p2"
    by (rule pruning_bookkeeping [OF pruneSamples_pruning [OF s]])
  have c: "bookkeeping_only p2 p3"
    by (rule callbacks_bookkeeping [OF run_eq_callbacks [OF q]])
  have "p' = p3\<lparr>numVerticesDisconnected := numVerticesDisconnected p3 + fst np,
                 numFreeStatesPruned := numFreeStatesPruned p3 + snd np,
                 prunedCost := bestCost p3\<rparr>"
    using assms s q by (simp add: prune_sweep_def Let_def)
  then have d: "bookkeeping_only p3 p'"
    by (simp add: bookkeeping_defs)
  show ?thesis
    using a b c d by (metis bookkeeping_only_trans)
qed

lemma prune_bookkeeping: "prune env m p w = (p', w') \<Longrightarrow> bookkeeping_only p p'"
  by (auto simp: prune_cases split: if_splits intro: prune_sweep_bookkeeping bookkeeping_only_refl)

lemma resort_bookkeeping: "resort env m p w = (p', w') \<Longrightarrow> bookkeeping_only p p'"
  by (rule pruning_bookkeeping [OF resort_pruning])

lemma run_bookkeeping: "run env m c p = (a, p', w') \<Longrightarrow> bookkeeping_only p p'"
  by (rule callbacks_bookkeeping [OF run_eq_callbacks])

lemma newBatch_bookkeeping:
  assumes "newBatch env m p w = (p', w')"
  shows "bookkeeping_only p p'"
proof -
  let ?p2 = "p\<lparr>numBatches := numBatches p + 1, costSampled := minCost p\<rparr>"
  obtain u p3 w3 where q: "run env m (q_reset env (m_intQueue m) w) ?p2 = (u, p3, w3)"
    by (cases "run env m (q_reset env (m_intQueue m) w) ?p2")
  obtain p4 w4 where r: "prune env m p3 w3 = (p4, w4)"
    by (cases "prune env m p3 w3")
  have a: "bookkeeping_only p ?p2"
    by (simp add: bookkeeping_defs)
  have b: "bookkeeping_only ?p2 p3" by (rule run_bookkeeping [OF q])
  have c: "bookkeeping_only p3 p4" by (rule prune_bookkeeping [OF r])
  have "\<exists>x. p' = p4\<lparr>sampleDensity := x\<rparr>"
    using assms q r by (auto simp: newBatch_def Let_def)
  then have d: "bookkeeping_only p4 p'"
    by (auto simp: bookkeeping_defs)
  show ?thesis
    using a b c d by (metis bookkeeping_only_trans)
qed

lemma solve_popEdge_bookkeeping:
  assumes "solve_popEdge env m p w = (e, p', w')"
  shows "bookkeeping_only p p'"
proof -
  let ?p1 = "p\<lparr>numIterations := numIterations p + 1\<rparr>"
  obtain p2 w2 where r:
    "(if useStrictQueueOrdering ?p1 then resort env m ?p1 w else (?p1, w)) = (p2, w2)"
    by (cases "if useStrictQueueOrdering ?p1 then resort env m ?p1 w else (?p1, w)")
  obtain em p3 w3 where q: "run env m (q_isEmpty env (m_intQueue m) w2) p2 = (em, p3, w3)"
    by (cases "run env m (q_isEmpty env (m_intQueue m) w2) p2")
  obtain p4 w4 where n: "(if em then newBatch env m p3 w3 else (p3, w3)) = (p4, w4)"
    by (cases "if em then newBatch env m p3 w3 else (p3, w3)")
  have a: "bookkeeping_only p ?p1"
    by (simp add: bookkeeping_defs)
  have b: "bookkeeping_only ?p1 p2"
    using r by (auto split: if_splits intro: resort_bookkeeping bookkeeping_only_refl)
  have c: "bookkeeping_only p2 p3" by (rule run_bookkeeping [OF q])
  have d: "bookkeeping_only p3 p4"
    using n by (auto split: if_splits intro: newBatch_bookkeeping bookkeeping_only_refl)
  have "run env m (q_popFrontEdge env (m_intQueue m) w4) p4 = (e, p', w')"
    using assms r q n by (simp add: solve_popEdge_def Let_def)
  then have f: "bookkeeping_only p4 p'" by (rule run_bookkeeping)
  show ?thesis
    using a b c d f by (metis bookkeeping_only_trans)
qed

lemma checkEdge_bookkeeping: "checkEdge env e p w = (free, p') \<Longrightarrow> bookkeeping_only p p'"
  by (auto simp: checkEdge_def bookkeeping_defs)

lemma addVertex_bookkeeping:
  assumes "addVertex env m v rf ue p w = (res, p', w')"
  shows "bookkeeping_only p p'"
proof (cases "\<not> v_hasParent env w v \<and> \<not> v_isRoot env w v")
  case True
  with assms show ?thesis by (simp add: addVertex_def bookkeeping_only_refl)
next
  case False
  let ?w2 = "nn_add env (m_vertexNN m) v (if rf then nn_remove env (m_freeStateNN m) v w else w)"
  obtain p3 w3 where q:
    "(if ue then (let (u, p', w') = run env m (q_insertVertex env (m_intQueue m) v ?w2) p
                  in (p', w')) else (p, ?w2)) = (p3, w3)"
    by (cases "if ue then (let (u, p', w') = run env m (q_insertVertex env (m_intQueue m) v ?w2) p
                  in (p', w')) else (p, ?w2)")
  have a: "bookkeeping_only p p3"
    using q by (auto split: if_splits prod.splits intro: run_bookkeeping bookkeeping_only_refl)
  have "p' = p3\<lparr>numVertices := numVertices p3 + 1\<rparr>"
    using assms False q by (auto simp: addVertex_def Let_def)
  then have b: "bookkeeping_only p3 p'"
    by (simp add: bookkeeping_defs)
  show ?thesis by (rule bookkeeping_only_trans [OF a b])
qed

lemma replaceParent_bookkeeping:
  assumes "replaceParent env m e c p w = (res, p', w')"
  shows "bookkeeping_only p p'"
proof -
  let ?p1 = "p\<lparr>numRewirings := numRewirings p + 1\<rparr>"
  have a: "bookkeeping_only p ?p1"
    by (simp add: bookkeeping_defs)
  have "bookkeeping_only ?p1 p'"
    using assms
    by (auto simp: replaceParent_def Let_def split: option.splits prod.splits
        intro: run_bookkeeping bookkeeping_only_refl)
  then show ?thesis by (rule bookkeeping_only_trans [OF a])
qed

lemma addEdge_bookkeeping:
  "addEdge env m e c rf ue p w = (res, p', w') \<Longrightarrow> bookkeeping_only p p'"
  by (auto simp: addEdge_def Let_def split: if_splits
      intro: replaceParent_bookkeeping addVertex_bookkeeping)

lemma resort_or_finish_pruning:
  assumes "resort_or_finish env m p w = (res, p', w')"
  shows "res = Inr False \<and> pruning_only p p'"
proof -
  obtain s p1 w1 where q: "run env m (q_isSorted env (m_intQueue m) w) p = (s, p1, w1)"
    by (cases "run env m (q_isSorted env (m_intQueue m) w) p")
  have a: "pruning_only p p1" by (rule callbacks_pruning [OF run_eq_callbacks [OF q]])
  show ?thesis
  proof (cases s)
    case False
    obtain p2 w2 where r: "resort env m p1 w1 = (p2, w2)" by (cases "resort env m p1 w1")
    have "res = Inr False \<and> p' = p2"
      using assms q r False by (simp add: resort_or_finish_def Let_def)
    with a resort_pruning [OF r] show ?thesis by (metis pruning_only_trans)
  next
    case True
    obtain u p2 w2 where f: "run env m (q_finish env (m_intQueue m) w1) p1 = (u, p2, w2)"
      by (cases "run env m (q_finish env (m_intQueue m) w1) p1")
    have "res = Inr False \<and> p' = p2"
      using assms q f True by (simp add: resort_or_finish_def Let_def)
    with a callbacks_pruning [OF run_eq_callbacks [OF f]] show ?thesis
      by (metis pruning_only_trans)
  qed
qed


subsection \<open>The solution only improves\<close>

lemma bookkeeping_bestCost: "bookkeeping_only p p' \<Longrightarrow> bestCost p' = bestCost p"
  using bookkeeping_solution [of p p'] by (simp add: solution_members_def)

lemma bookkeeping_stopOnSolnChange:
  "bookkeeping_only p p' \<Longrightarrow> stopOnSolnChange p' = stopOnSolnChange p"
  using bookkeeping_configuration [of p p'] by (simp add: configuration_def)

lemma solution_progress_refl: "solution_progress p p"
  by (simp add: solution_progress_def)

lemma bookkeeping_progress: "bookkeeping_only p p' \<Longrightarrow> solution_progress p p'"
  by (simp add: solution_progress_def bookkeeping_solution)

lemma solution_progress_trans:
  assumes "solution_progress p p1" and "solution_progress p1 p2"
  shows "solution_progress p p2"
  using assms
  by (auto simp: solution_progress_def solution_members_def isCostBetterThan_def
      dest: dless_trans)

lemma solution_progress_bookkeeping_left:
  "bookkeeping_only p p1 \<Longrightarrow> solution_progress p1 p2 \<Longrightarrow> solution_progress p p2"
  by (rule solution_progress_trans [OF bookkeeping_progress])

lemma solution_progress_bookkeeping_right:
  "solution_progress p p1 \<Longrightarrow> bookkeeping_only p1 p2 \<Longrightarrow> solution_progress p p2"
  by (rule solution_progress_trans [OF _ bookkeeping_progress])

text \<open>The check for an improved solution.\<close>

lemma solve_improved_better:
  assumes "solve_improved env m p w = (stopLoop, p', w')"
    and "isCostBetterThan (v_getCost env w (m_goalVertex m)) (bestCost p)"
  shows "bestCost p' = v_getCost env w (m_goalVertex m) \<and> hasSolution p'
     \<and> approximateSoln p' = (hasSolution p \<and> approximateSoln p)
     \<and> stopLoop = stopOnSolnChange p \<and> configuration p' = configuration p
     \<and> minCost p' = minCost p
     \<and> (\<exists>p3. bestCost p3 = v_getCost env w (m_goalVertex m)
            \<and> run env m (q_setThreshold env (m_intQueue m) (v_getCost env w (m_goalVertex m)) w) p3
                = ((), p', w'))"
proof -
  let ?g = "v_getCost env w (m_goalVertex m)"
  let ?p1 = "if \<not> hasSolution p then p\<lparr>approximateSoln := False, approximateDiff := Fin (- 1)\<rparr> else p"
  let ?p3 = "?p1\<lparr>hasSolution := True, bestCost := ?g\<rparr>"
  obtain u p4 w4 where q: "run env m (q_setThreshold env (m_intQueue m) ?g w) ?p3 = (u, p4, w4)"
    by (cases "run env m (q_setThreshold env (m_intQueue m) ?g w) ?p3")
  have b: "bookkeeping_only ?p3 p4" by (rule run_bookkeeping [OF q])
  have e: "stopLoop = stopOnSolnChange p4 \<and> p' = p4 \<and> w' = w4"
    using assms q by (auto simp: solve_improved_def Let_def)
  have s: "solution_members p4 = solution_members ?p3"
    by (rule bookkeeping_solution [OF b])
  have c: "configuration p4 = configuration ?p3"
    by (rule bookkeeping_configuration [OF b])
  have mc: "minCost p4 = minCost ?p3" by (rule bookkeeping_minCost [OF b])
  have "bestCost ?p3 = ?g" by simp
  moreover have "run env m (q_setThreshold env (m_intQueue m) ?g w) ?p3 = ((), p', w')"
    using q e by simp
  ultimately have ex: "\<exists>p3. bestCost p3 = ?g
      \<and> run env m (q_setThreshold env (m_intQueue m) ?g w) p3 = ((), p', w')"
    by blast
  show ?thesis
    using e s c mc ex by (auto simp: solution_members_def configuration_def)
qed

lemma solve_improved_not_better:
  assumes "solve_improved env m p w = (stopLoop, p', w')"
    and "\<not> isCostBetterThan (v_getCost env w (m_goalVertex m)) (bestCost p)"
  shows "p' = p \<and> w' = w \<and> \<not> stopLoop"
  using assms by (auto simp: solve_improved_def)

lemma solve_improved_progress:
  assumes "solve_improved env m p w = (stopLoop, p', w')"
  shows "solution_progress p p' \<and> configuration p' = configuration p \<and> minCost p' = minCost p
     \<and> (bestCost p' \<noteq> bestCost p \<longrightarrow>
          isCostBetterThan (v_getCost env w (m_goalVertex m)) (bestCost p)
          \<and> bestCost p' = v_getCost env w (m_goalVertex m) \<and> stopLoop = stopOnSolnChange p)
     \<and> (bestCost p' = bestCost p \<longrightarrow> \<not> stopLoop)"
proof (cases "isCostBetterThan (v_getCost env w (m_goalVertex m)) (bestCost p)")
  case True
  note b = solve_improved_better [OF assms True]
  have "bestCost p' \<noteq> bestCost p"
    using b True by (auto simp: isCostBetterThan_def dless_irrefl)
  with b True show ?thesis by (auto simp: solution_progress_def)
next
  case False
  with solve_improved_not_better [OF assms False] show ?thesis
    by (simp add: solution_progress_refl)
qed

lemma solve_edge_cases:
  "solve_edge env m e p w =
     (if \<not> gate_A env m w e (v_getCost env w (m_goalVertex m)) then resort_or_finish env m p w
      else if \<not> gate_B env m w e (v_getCost env w (m_goalVertex m)) then discard_edge env e p w
      else if \<not> edge_free env w e then
        discard_edge env e (p\<lparr>numEdgeCollisionChecks := numEdgeCollisionChecks p + 1\<rparr>) w
      else if \<not> improves_tree env m w e then
        (Inr False, p\<lparr>numEdgeCollisionChecks := numEdgeCollisionChecks p + 1\<rparr>, w)
      else add_edge_and_check env m e (trueEdgeCost env w e)
             (p\<lparr>numEdgeCollisionChecks := numEdgeCollisionChecks p + 1\<rparr>) w)"
  by (simp add: solve_edge_def gate_A_def gate_B_def resort_or_finish_def discard_edge_def
      edge_free_def improves_tree_def add_edge_and_check_def checkEdge_def Let_def)

lemma add_edge_and_check_progress:
  assumes "add_edge_and_check env m e c p w = (res, p', w')"
  shows "solution_progress p p' \<and> configuration p' = configuration p \<and> minCost p' = minCost p
     \<and> (bestCost p' \<noteq> bestCost p \<longrightarrow>
          (\<exists>w2. isCostBetterThan (v_getCost env w2 (m_goalVertex m)) (bestCost p)
             \<and> bestCost p' = v_getCost env w2 (m_goalVertex m))
          \<and> res = Inr (stopOnSolnChange p))
     \<and> (bestCost p' = bestCost p \<longrightarrow> res = Inr False \<or> (\<exists>a. res = Inl a))"
proof -
  obtain r2 p2 w2 where a: "addEdge env m e c True True p w = (r2, p2, w2)"
    by (cases "addEdge env m e c True True p w")
  have b: "bookkeeping_only p p2" by (rule addEdge_bookkeeping [OF a])
  show ?thesis
  proof (cases r2)
    case (Inl x)
    then have "res = Inl x \<and> p' = p2"
      using assms a by (simp add: add_edge_and_check_def)
    then show ?thesis
      using b by (auto simp: bookkeeping_progress bookkeeping_configuration bookkeeping_minCost
          bookkeeping_bestCost)
  next
    case (Inr u)
    obtain st p3 w3 where i: "solve_improved env m p2 w2 = (st, p3, w3)"
      by (cases "solve_improved env m p2 w2")
    obtain u' p4 w4 where q:
      "run env m (q_pruneEdgesTo env (m_intQueue m) (snd e) w3) p3 = (u', p4, w4)"
      by (cases "run env m (q_pruneEdgesTo env (m_intQueue m) (snd e) w3) p3")
    have r: "res = Inr st \<and> p' = p4"
      using assms a Inr i q by (simp add: add_edge_and_check_def Let_def)
    note ip = solve_improved_progress [OF i]
    have c: "bookkeeping_only p3 p4" by (rule run_bookkeeping [OF q])
    have prog: "solution_progress p p4"
      using b ip c
      by (metis solution_progress_bookkeeping_left solution_progress_bookkeeping_right)
    have conf: "configuration p4 = configuration p"
      using bookkeeping_configuration [OF b] bookkeeping_configuration [OF c] ip by simp
    have mc: "minCost p4 = minCost p"
      using bookkeeping_minCost [OF b] bookkeeping_minCost [OF c] ip by simp
    have bc: "bestCost p4 = bestCost p3" "bestCost p2 = bestCost p"
      "stopOnSolnChange p2 = stopOnSolnChange p"
      using bookkeeping_bestCost [OF c] bookkeeping_bestCost [OF b]
        bookkeeping_stopOnSolnChange [OF b] by simp_all
    show ?thesis
      using r prog conf mc bc ip by auto
  qed
qed

lemma solve_edge_progress:
  assumes "solve_edge env m e p w = (res, p', w')"
  shows "solution_progress p p' \<and> configuration p' = configuration p \<and> minCost p' = minCost p
     \<and> (bestCost p' \<noteq> bestCost p \<longrightarrow>
          (\<exists>w2. isCostBetterThan (v_getCost env w2 (m_goalVertex m)) (bestCost p)
             \<and> bestCost p' = v_getCost env w2 (m_goalVertex m))
          \<and> res = Inr (stopOnSolnChange p))
     \<and> (bestCost p' = bestCost p \<longrightarrow> res = Inr False \<or> (\<exists>a. res = Inl a))"
proof -
  let ?p1 = "p\<lparr>numEdgeCollisionChecks := numEdgeCollisionChecks p + 1\<rparr>"
  have one: "bookkeeping_only p ?p1" by (simp add: bookkeeping_defs)
  have "solve_edge env m e p w = resort_or_finish env m p w
      \<or> solve_edge env m e p w = discard_edge env e p w
      \<or> solve_edge env m e p w = discard_edge env e ?p1 w
      \<or> solve_edge env m e p w = (Inr False, ?p1, w)
      \<or> solve_edge env m e p w = add_edge_and_check env m e (trueEdgeCost env w e) ?p1 w"
    by (simp add: solve_edge_cases)
  then consider (rf) "solve_edge env m e p w = resort_or_finish env m p w"
    | (d0) "solve_edge env m e p w = discard_edge env e p w"
    | (d1) "solve_edge env m e p w = discard_edge env e ?p1 w"
    | (ni) "solve_edge env m e p w = (Inr False, ?p1, w)"
    | (ad) "solve_edge env m e p w = add_edge_and_check env m e (trueEdgeCost env w e) ?p1 w"
    by blast
  then show ?thesis
  proof cases
    case rf
    with assms have "resort_or_finish env m p w = (res, p', w')" by simp
    from resort_or_finish_pruning [OF this]
    have "res = Inr False" "bookkeeping_only p p'" by (simp_all add: pruning_bookkeeping)
    then show ?thesis
      by (auto simp: bookkeeping_progress bookkeeping_configuration bookkeeping_minCost
          bookkeeping_bestCost)
  next
    case d0
    with assms have "res = Inr False \<and> p' = p" by (auto simp: discard_edge_def)
    then show ?thesis by (simp add: solution_progress_refl)
  next
    case d1
    with assms have "res = Inr False \<and> p' = ?p1" by (auto simp: discard_edge_def)
    then show ?thesis
      using one by (auto simp: bookkeeping_progress configuration_def)
  next
    case ni
    with assms have "res = Inr False \<and> p' = ?p1" by auto
    then show ?thesis
      using one by (auto simp: bookkeeping_progress configuration_def)
  next
    case ad
    with assms have "add_edge_and_check env m e (trueEdgeCost env w e) ?p1 w = (res, p', w')"
      by simp
    note ap = add_edge_and_check_progress [OF this]
    have "solution_progress p p'"
      using ap one by (metis solution_progress_bookkeeping_left)
    moreover have "configuration ?p1 = configuration p" "minCost ?p1 = minCost p"
      "bestCost ?p1 = bestCost p" "stopOnSolnChange ?p1 = stopOnSolnChange p"
      by (simp_all add: configuration_def)
    ultimately show ?thesis using ap by simp
  qed
qed

lemma solve_iteration_progress:
  assumes "solve_iteration env m p w = (res, p', w')"
  shows "solution_progress p p' \<and> configuration p' = configuration p \<and> minCost p' = minCost p
     \<and> (bestCost p' \<noteq> bestCost p \<longrightarrow>
          (\<exists>w2. isCostBetterThan (v_getCost env w2 (m_goalVertex m)) (bestCost p)
             \<and> bestCost p' = v_getCost env w2 (m_goalVertex m))
          \<and> res = Inr (stopOnSolnChange p))
     \<and> (bestCost p' = bestCost p \<longrightarrow> res = Inr False \<or> (\<exists>a. res = Inl a))"
proof -
  obtain e p1 w1 where pe: "solve_popEdge env m p w = (e, p1, w1)"
    by (cases "solve_popEdge env m p w")
  have b: "bookkeeping_only p p1" by (rule solve_popEdge_bookkeeping [OF pe])
  have "solve_edge env m e p1 w1 = (res, p', w')"
    using assms pe by (simp add: solve_iteration_def)
  note ep = solve_edge_progress [OF this]
  have "solution_progress p p'"
    using ep b by (metis solution_progress_bookkeeping_left)
  then show ?thesis
    using ep bookkeeping_configuration [OF b] bookkeeping_minCost [OF b]
      bookkeeping_bestCost [OF b] bookkeeping_stopOnSolnChange [OF b]
    by simp
qed

lemma solve_loop_progress:
  "solve_loop env ptc m fuel stopLoop p w = Some (res, p', w') \<Longrightarrow>
     solution_progress p p' \<and> configuration p' = configuration p \<and> minCost p' = minCost p"
proof (induction fuel arbitrary: stopLoop p w)
  case 0
  then show ?case by simp
next
  case (Suc fuel)
  show ?case
  proof (cases "\<not> opt_isSatisfied env (m_opt m) w (bestCost p) \<and> \<not> ptc w
         \<and> isCostBetterThan (minCost p) (bestCost p) \<and> \<not> stopLoop")
    case False
    with Suc.prems have "p' = p" by auto
    then show ?thesis by (simp add: solution_progress_refl)
  next
    case True
    obtain r1 p1 w1 where it: "solve_iteration env m p w = (r1, p1, w1)"
      by (cases "solve_iteration env m p w")
    note ip = solve_iteration_progress [OF it]
    show ?thesis
    proof (cases r1)
      case (Inl a)
      with Suc.prems True it have "p' = p1" by simp
      with ip show ?thesis by simp
    next
      case (Inr st)
      with Suc.prems True it have "solve_loop env ptc m fuel st p1 w1 = Some (res, p', w')"
        by simp
      from Suc.IH [OF this] ip show ?thesis
        by (metis solution_progress_trans)
    qed
  qed
qed

lemma solve_loop_mono:
  "solve_loop env ptc m fuel stopLoop p w = Some x \<Longrightarrow>
     solve_loop env ptc m (fuel + n) stopLoop p w = Some x"
proof (induction fuel arbitrary: stopLoop p w)
  case 0
  then show ?case by simp
next
  case (Suc fuel)
  show ?case
  proof (cases "\<not> opt_isSatisfied env (m_opt m) w (bestCost p) \<and> \<not> ptc w
         \<and> isCostBetterThan (minCost p) (bestCost p) \<and> \<not> stopLoop")
    case False
    with Suc.prems show ?thesis by auto
  next
    case True
    obtain r1 p1 w1 where it: "solve_iteration env m p w = (r1, p1, w1)"
      by (cases "solve_iteration env m p w")
    show ?thesis
    proof (cases r1)
      case (Inl a)
      with Suc.prems True it show ?thesis by simp
    next
      case (Inr st)
      with Suc.prems True it have "solve_loop env ptc m fuel st p1 w1 = Some x" by simp
      from Suc.IH [OF this] show ?thesis using True it Inr by simp
    qed
  qed
qed

lemma reversePath_mono:
  "reversePath env w fuel v = Some path \<Longrightarrow> reversePath env w (fuel + n) v = Some path"
proof (induction env w fuel v arbitrary: path rule: reversePath.induct)
  case (1 env w fuel)
  then show ?case by simp
next
  case (2 env w vertex)
  then show ?case by simp
next
  case (3 env w fuel vertex)
  then show ?case by auto
qed

subsection \<open>The first admissibility test\<close>

lemma pruning_solution: "pruning_only p p' \<Longrightarrow> solution_members p' = solution_members p"
  by (rule bookkeeping_solution [OF pruning_bookkeeping])

lemma resort_or_finish_steps:
  assumes "resort_or_finish env m p w = (res, p', w')"
    and "run env m (q_isSorted env (m_intQueue m) w) p = (isSorted, p1, w1)"
  shows "(\<not> isSorted \<longrightarrow> resort env m p1 w1 = (p', w'))
       \<and> (isSorted \<longrightarrow> run env m (q_finish env (m_intQueue m) w1) p1 = ((), p', w'))"
  using assms by (auto simp: resort_or_finish_def Let_def split: prod.splits)


text \<open>
  Claim C1, amended. In every iteration of the loop of \<^verbatim>\<open>solve\<close> the popped edge \<open>(u, x)\<close> is
  processed further (true edge cost, collision check, possible addition) only if
  \<open>combine(g_t(u), c_hat(u, x), h_hat(x))\<close> is strictly better than the current tree cost of the
  goal vertex, \<open>g_t(goal)\<close>; otherwise the loop resorts and continues when the queue is not
  sorted, and calls \<^verbatim>\<open>finish()\<close> on the queue when it is. Whenever the tree cost of the goal
  vertex equals the best cost, this is the comparison with the best cost.
\<close>

theorem edge_processed_only_if_admissible:
  "solve_iteration env m p w
     = (let (e, p1, w1) = solve_popEdge env m p w in solve_edge env m e p1 w1)
   \<and> (\<not> gate_A env m w e (v_getCost env w (m_goalVertex m)) \<longrightarrow>
        solve_edge env m e p w = resort_or_finish env m p w)
   \<and> (resort_or_finish env m p w = (res, p', w')
        \<and> run env m (q_isSorted env (m_intQueue m) w) p = (isSorted, p1, w1) \<longrightarrow>
        res = Inr False
        \<and> numEdgeCollisionChecks p' = numEdgeCollisionChecks p
        \<and> solution_members p' = solution_members p
        \<and> (\<not> isSorted \<longrightarrow> resort env m p1 w1 = (p', w'))
        \<and> (isSorted \<longrightarrow> run env m (q_finish env (m_intQueue m) w1) p1 = ((), p', w')))
   \<and> (solve_edge env m e p w = (res, p', w')
        \<and> numEdgeCollisionChecks p' \<noteq> numEdgeCollisionChecks p \<longrightarrow>
        gate_A env m w e (v_getCost env w (m_goalVertex m)))
   \<and> (v_getCost env w (m_goalVertex m) = bestCost p \<and> \<not> gate_A env m w e (bestCost p) \<longrightarrow>
        solve_edge env m e p w = resort_or_finish env m p w)"
proof (intro conjI impI)
  show "solve_iteration env m p w
     = (let (e, p1, w1) = solve_popEdge env m p w in solve_edge env m e p1 w1)"
    by (simp add: solve_iteration_def)
next
  assume "\<not> gate_A env m w e (v_getCost env w (m_goalVertex m))"
  then show "solve_edge env m e p w = resort_or_finish env m p w"
    by (simp add: solve_edge_cases)
next
  assume "v_getCost env w (m_goalVertex m) = bestCost p \<and> \<not> gate_A env m w e (bestCost p)"
  then show "solve_edge env m e p w = resort_or_finish env m p w"
    by (simp add: solve_edge_cases)
next
  assume a: "solve_edge env m e p w = (res, p', w')
        \<and> numEdgeCollisionChecks p' \<noteq> numEdgeCollisionChecks p"
  show "gate_A env m w e (v_getCost env w (m_goalVertex m))"
  proof (rule ccontr)
    assume "\<not> gate_A env m w e (v_getCost env w (m_goalVertex m))"
    then have "resort_or_finish env m p w = (res, p', w')"
      using a by (simp add: solve_edge_cases)
    from resort_or_finish_pruning [OF this]
    have "numEdgeCollisionChecks p' = numEdgeCollisionChecks p"
      by (simp add: pruning_numEdgeCollisionChecks)
    with a show False by simp
  qed
next
  assume a: "resort_or_finish env m p w = (res, p', w')
        \<and> run env m (q_isSorted env (m_intQueue m) w) p = (isSorted, p1, w1)"
  then have r: "resort_or_finish env m p w = (res, p', w')"
    and q: "run env m (q_isSorted env (m_intQueue m) w) p = (isSorted, p1, w1)"
    by simp_all
  note f = resort_or_finish_pruning [OF r]
  note s = resort_or_finish_steps [OF r q]
  show "res = Inr False" using f by simp
  show "numEdgeCollisionChecks p' = numEdgeCollisionChecks p"
    using f by (simp add: pruning_numEdgeCollisionChecks)
  show "solution_members p' = solution_members p"
    using f by (simp add: pruning_solution)
  show "\<not> isSorted \<Longrightarrow> resort env m p1 w1 = (p', w')" using s by simp
  show "isSorted \<Longrightarrow> run env m (q_finish env (m_intQueue m) w1) p1 = ((), p', w')"
    using s by simp
qed


lemmas solve_defs = solve_iteration_def solve_popEdge_def solve_edge_def solve_improved_def
  resort_or_finish_def resort_def addEdge_def addVertex_def replaceParent_def checkEdge_def
  trueEdgeCost_def edgeCostHeuristic_def costToGoHeuristic_def costToComeHeuristic_def
  isCostBetterThan_def gate_A_def gate_B_def Let_def

lemma toy_finish:
  "solve_edge toy toy_members (0, 4) toy_planner1 toy_world1
     = (Inr False, toy_planner1, toy_world1\<lparr>tw_unexpanded := [], tw_edges := []\<rparr>)"
  by (simp add: solve_defs toy_defs)

lemma toy_resort:
  "solve_edge toy toy_members (0, 4) toy_planner1 (toy_world1\<lparr>tw_sorted := False\<rparr>)
     = (Inr False, toy_planner1, toy_world1)"
  by (simp add: solve_defs toy_defs)

lemma toy_first_edge:
  "solve_edge toy toy_members (0, 1) (toy_planner0\<lparr>numIterations := 1\<rparr>)
      (toy_world0\<lparr>tw_edges := [(0, 2), (0, 3), (0, 4)]\<rparr>)
     = (Inr False, toy_planner1, toy_world1)"
  by (simp add: solve_defs toy_defs)


text \<open>In the small instance, with the goal in the tree at cost 10, the edge to the sample at 30
  has the estimate 35: a sorted queue is finished and an unsorted one resorted. The edge from the
  start to the goal had the estimate 5 and was checked for collision.\<close>

theorem edge_processed_only_if_admissible_witness:
  "\<not> gate_A toy toy_members toy_world1 (0, 4) (v_getCost toy toy_world1 (m_goalVertex toy_members))
   \<and> solve_edge toy toy_members (0, 4) toy_planner1 toy_world1
       = (Inr False, toy_planner1, toy_world1\<lparr>tw_unexpanded := [], tw_edges := []\<rparr>)
   \<and> run toy toy_members (q_finish toy (m_intQueue toy_members) toy_world1) toy_planner1
       = ((), toy_planner1, toy_world1\<lparr>tw_unexpanded := [], tw_edges := []\<rparr>)
   \<and> solve_edge toy toy_members (0, 4) toy_planner1 (toy_world1\<lparr>tw_sorted := False\<rparr>)
       = (Inr False, toy_planner1, toy_world1)
   \<and> resort toy toy_members toy_planner1 (toy_world1\<lparr>tw_sorted := False\<rparr>)
       = (toy_planner1, toy_world1)
   \<and> numEdgeCollisionChecks toy_planner1 \<noteq> numEdgeCollisionChecks (toy_planner0\<lparr>numIterations := 1\<rparr>)
   \<and> gate_A toy toy_members (toy_world0\<lparr>tw_edges := [(0, 2), (0, 3), (0, 4)]\<rparr>) (0, 1)
       (v_getCost toy (toy_world0\<lparr>tw_edges := [(0, 2), (0, 3), (0, 4)]\<rparr>) (m_goalVertex toy_members))
   \<and> v_getCost toy toy_world1 (m_goalVertex toy_members) = bestCost toy_planner1"
proof -
  have g: "\<not> gate_A toy toy_members toy_world1 (0, 4)
              (v_getCost toy toy_world1 (m_goalVertex toy_members))"
    "\<not> gate_A toy toy_members (toy_world1\<lparr>tw_sorted := False\<rparr>) (0, 4)
              (v_getCost toy (toy_world1\<lparr>tw_sorted := False\<rparr>) (m_goalVertex toy_members))"
    "v_getCost toy toy_world1 (m_goalVertex toy_members) = bestCost toy_planner1"
    by (simp_all add: solve_defs toy_defs)
  have s: "run toy toy_members (q_isSorted toy (m_intQueue toy_members) toy_world1) toy_planner1
             = (True, toy_planner1, toy_world1)"
    "run toy toy_members (q_isSorted toy (m_intQueue toy_members) (toy_world1\<lparr>tw_sorted := False\<rparr>))
        toy_planner1 = (False, toy_planner1, toy_world1\<lparr>tw_sorted := False\<rparr>)"
    by (simp_all add: toy_defs)
  have n: "numEdgeCollisionChecks toy_planner1
             \<noteq> numEdgeCollisionChecks (toy_planner0\<lparr>numIterations := 1\<rparr>)"
    by (simp add: toy_defs)
  note t1 = edge_processed_only_if_admissible [of toy toy_members toy_planner1 toy_world1 "(0, 4)"
      "Inr False" toy_planner1 "toy_world1\<lparr>tw_unexpanded := [], tw_edges := []\<rparr>" True toy_planner1 toy_world1]
  note t2 = edge_processed_only_if_admissible [of toy toy_members toy_planner1
      "toy_world1\<lparr>tw_sorted := False\<rparr>" "(0, 4)" "Inr False" toy_planner1 toy_world1 False
      toy_planner1 "toy_world1\<lparr>tw_sorted := False\<rparr>"]
  note t3 = edge_processed_only_if_admissible [of toy toy_members "toy_planner0\<lparr>numIterations := 1\<rparr>"
      "toy_world0\<lparr>tw_edges := [(0, 2), (0, 3), (0, 4)]\<rparr>" "(0, 1)" "Inr False" toy_planner1
      toy_world1]
  show ?thesis
    using t1 t2 t3 g s n toy_finish toy_resort toy_first_edge by simp
qed


text \<open>
  Claim C1 as stated compares with the best solution cost. With a best cost of 12 and the goal
  vertex detached from the tree (cost infinite), the edge to the sample at 30 has the estimate
  35, which is not better than 12, and yet the edge is checked for collision and added to the
  tree instead of the queue being resorted or finished.
\<close>

theorem best_solution_cost_counterexample:
  "\<not> gate_A toy toy_members toy_world0 (0, 4) (bestCost toy_planner_detached)
   \<and> solve_edge toy toy_members (0, 4) toy_planner_detached toy_world0
       \<noteq> resort_or_finish toy toy_members toy_planner_detached toy_world0
   \<and> numEdgeCollisionChecks
        (fst (snd (solve_edge toy toy_members (0, 4) toy_planner_detached toy_world0)))
       = numEdgeCollisionChecks toy_planner_detached + 1
   \<and> v_hasParent toy (snd (snd (solve_edge toy toy_members (0, 4) toy_planner_detached toy_world0))) 4"
  by (simp add: solve_defs toy_defs toy_planner_detached_def)

subsection \<open>The true edge cost and the second admissibility test\<close>

text \<open>
  Claim C2, amended. The true cost of an edge \<open>(u, v)\<close>, used in the second admissibility test,
  in the test for an improvement of the tree and when the edge is added, is the distance of the
  state space from the state of \<open>u\<close> to the state of \<open>v\<close>, whatever the objective. An edge that
  passes the first test and whose \<open>combine(g_hat(u), c(u, v), h_hat(v))\<close> is not better than the
  tree cost of the goal vertex is dropped: nothing changes, except that the target is recorded
  as a failed child of the source exactly when failures are tracked.
\<close>

theorem true_edge_cost_is_distance:
  "trueEdgeCost env w e = si_distance env w (v_state env w (fst e)) (v_state env w (snd e))
   \<and> gate_B env m w e c =
       isCostBetterThan
         (opt_combineCosts3 env (m_opt m) (costToComeHeuristic env m w (fst e))
            (si_distance env w (v_state env w (fst e)) (v_state env w (snd e)))
            (costToGoHeuristic env m w (snd e))) c
   \<and> (gate_A env m w e (v_getCost env w (m_goalVertex m))
        \<and> \<not> gate_B env m w e (v_getCost env w (m_goalVertex m)) \<longrightarrow>
        solve_edge env m e p w =
          (Inr False, p,
           if useFailureTracking p then v_markAsFailedChild env (fst e) (snd e) w else w))
   \<and> (gate_A env m w e (v_getCost env w (m_goalVertex m))
        \<and> gate_B env m w e (v_getCost env w (m_goalVertex m))
        \<and> edge_free env w e \<and> improves_tree env m w e \<longrightarrow>
        solve_edge env m e p w =
          add_edge_and_check env m e
            (si_distance env w (v_state env w (fst e)) (v_state env w (snd e)))
            (p\<lparr>numEdgeCollisionChecks := numEdgeCollisionChecks p + 1\<rparr>) w)"
  by (simp add: solve_edge_cases discard_edge_def trueEdgeCost_def gate_B_def)


lemma toy_discard:
  "solve_edge toy toy_members (0, 3) toy_planner1 toy_world1 = (Inr False, toy_planner1, toy_world1)"
  "solve_edge toy toy_members (0, 3) (toy_planner1\<lparr>useFailureTracking := True\<rparr>) toy_world1
     = (Inr False, toy_planner1\<lparr>useFailureTracking := True\<rparr>,
        v_markAsFailedChild toy 0 3 toy_world1)"
  by (simp_all add: solve_defs toy_defs)


text \<open>In the small instance the edge to the sample at 12 passes the first test (estimate 8
  against a goal cost of 10) and fails the second (14); the edge from the start to the goal is
  added with cost 10, the distance.\<close>

theorem true_edge_cost_is_distance_witness:
  "gate_A toy toy_members toy_world1 (0, 3) (v_getCost toy toy_world1 (m_goalVertex toy_members))
   \<and> \<not> gate_B toy toy_members toy_world1 (0, 3) (v_getCost toy toy_world1 (m_goalVertex toy_members))
   \<and> solve_edge toy toy_members (0, 3) toy_planner1 toy_world1
       = (Inr False, toy_planner1, toy_world1)
   \<and> solve_edge toy toy_members (0, 3) (toy_planner1\<lparr>useFailureTracking := True\<rparr>) toy_world1
       = (Inr False, toy_planner1\<lparr>useFailureTracking := True\<rparr>,
          v_markAsFailedChild toy 0 3 toy_world1)
   \<and> tv_failed (tw_vertices (v_markAsFailedChild toy 0 3 toy_world1) ! 0) = [3]
   \<and> gate_A toy toy_members toy_world0 (0, 1) (v_getCost toy toy_world0 (m_goalVertex toy_members))
   \<and> gate_B toy toy_members toy_world0 (0, 1) (v_getCost toy toy_world0 (m_goalVertex toy_members))
   \<and> edge_free toy toy_world0 (0, 1) \<and> improves_tree toy toy_members toy_world0 (0, 1)
   \<and> solve_edge toy toy_members (0, 1) toy_planner0 toy_world0
       = add_edge_and_check toy toy_members (0, 1) (Fin 10)
           (toy_planner0\<lparr>numEdgeCollisionChecks := 1\<rparr>) toy_world0
   \<and> v_getCost toy
        (snd (snd (solve_edge toy toy_members (0, 1) toy_planner0 toy_world0))) 1 = Fin 10"
proof -
  have g: "gate_A toy toy_members toy_world1 (0, 3) (v_getCost toy toy_world1 (m_goalVertex toy_members))"
    "\<not> gate_B toy toy_members toy_world1 (0, 3) (v_getCost toy toy_world1 (m_goalVertex toy_members))"
    "gate_A toy toy_members toy_world0 (0, 1) (v_getCost toy toy_world0 (m_goalVertex toy_members))"
    "gate_B toy toy_members toy_world0 (0, 1) (v_getCost toy toy_world0 (m_goalVertex toy_members))"
    "edge_free toy toy_world0 (0, 1)" "improves_tree toy toy_members toy_world0 (0, 1)"
    "si_distance toy toy_world0 (v_state toy toy_world0 (fst (0, 1)))
       (v_state toy toy_world0 (snd (0, 1))) = Fin 10"
    "numEdgeCollisionChecks toy_planner0 + 1 = 1"
    "\<not> useFailureTracking toy_planner1"
    by (simp_all add: solve_defs edge_free_def improves_tree_def toy_defs)
  have f: "tv_failed (tw_vertices (v_markAsFailedChild toy 0 3 toy_world1) ! 0) = [3]"
    by (simp add: toy_defs)
  have c: "v_getCost toy
        (snd (snd (solve_edge toy toy_members (0, 1) toy_planner0 toy_world0))) 1 = Fin 10"
    by (simp add: solve_defs toy_defs)
  show ?thesis
    using true_edge_cost_is_distance [of toy toy_world1 "(0, 3)" toy_members PosInf toy_planner1]
      true_edge_cost_is_distance [of toy toy_world1 "(0, 3)" toy_members PosInf
        "toy_planner1\<lparr>useFailureTracking := True\<rparr>"]
      true_edge_cost_is_distance [of toy toy_world0 "(0, 1)" toy_members PosInf toy_planner0]
      g f c
    by simp
qed


text \<open>
  Claim C2 as stated takes the true edge cost to be the motion cost of the objective. The
  objective of the small instance charges 20 for the motion from the start to the goal, and the
  true edge cost is the distance 10. With a best cost of 12 and the goal vertex detached, the
  edge to the sample at 30 has \<open>combine(g_hat(u), c, h_hat(v)) = 50\<close>, not better than the best
  cost, and is added to the tree instead of being dropped.
\<close>

theorem motion_cost_counterexample:
  "trueEdgeCost toy toy_world0 (0, 1) = Fin 10
   \<and> opt_motionCost toy (m_opt toy_members) toy_world0
        (v_state toy toy_world0 0) (v_state toy toy_world0 1) = Fin 20
   \<and> \<not> gate_B toy toy_members toy_world0 (0, 4) (bestCost toy_planner_detached)
   \<and> solve_edge toy toy_members (0, 4) toy_planner_detached toy_world0
       \<noteq> (Inr False, toy_planner_detached, toy_world0)
   \<and> tv_parent (tw_vertices
        (snd (snd (solve_edge toy toy_members (0, 4) toy_planner_detached toy_world0))) ! 4)
       = Some 0"
  by (simp add: solve_defs toy_defs toy_planner_detached_def)

subsection \<open>The best cost never gets worse\<close>

lemma solution_progress_bestCost:
  "solution_progress p p' \<Longrightarrow>
     bestCost p' = bestCost p \<or> isCostBetterThan (bestCost p') (bestCost p)"
  by (auto simp: solution_progress_def solution_members_def)


text \<open>
  Claim C4. The check made after an edge was added assigns the best cost only when the tree cost
  of the goal vertex is strictly better than it: the best cost then is that cost, the threshold
  of the queue is set to it, and the loop is told to stop exactly when stopping on each
  improvement is configured; otherwise nothing changes. An iteration of the loop changes the best
  cost only through this check, so the best cost after an iteration, and after any number of
  iterations, is the one before or strictly better. A loop that was told to stop stops.
\<close>

theorem best_cost_only_improves:
  "(solve_improved env m p w = (stopLoop, p', w')
      \<and> isCostBetterThan (v_getCost env w (m_goalVertex m)) (bestCost p) \<longrightarrow>
      bestCost p' = v_getCost env w (m_goalVertex m) \<and> hasSolution p'
      \<and> stopLoop = stopOnSolnChange p
      \<and> (\<exists>p3. bestCost p3 = bestCost p'
             \<and> run env m (q_setThreshold env (m_intQueue m) (bestCost p') w) p3 = ((), p', w')))
   \<and> (solve_improved env m p w = (stopLoop, p', w')
      \<and> \<not> isCostBetterThan (v_getCost env w (m_goalVertex m)) (bestCost p) \<longrightarrow>
      p' = p \<and> w' = w \<and> \<not> stopLoop)
   \<and> (solve_iteration env m p w = (res, p', w') \<longrightarrow>
        (bestCost p' = bestCost p \<or> isCostBetterThan (bestCost p') (bestCost p))
      \<and> (bestCost p' \<noteq> bestCost p \<longrightarrow>
           (\<exists>w2. isCostBetterThan (v_getCost env w2 (m_goalVertex m)) (bestCost p)
              \<and> bestCost p' = v_getCost env w2 (m_goalVertex m))
           \<and> res = Inr (stopOnSolnChange p))
      \<and> (bestCost p' = bestCost p \<longrightarrow> res = Inr False \<or> (\<exists>a. res = Inl a)))
   \<and> (solve_loop env ptc m fuel stopped p w = Some (out, p', w') \<longrightarrow>
        bestCost p' = bestCost p \<or> isCostBetterThan (bestCost p') (bestCost p))
   \<and> solve_loop env ptc m (Suc fuel) True p w = Some (Inr (), p, w)"
proof -
  have A: "solve_improved env m p w = (stopLoop, p', w')
      \<and> isCostBetterThan (v_getCost env w (m_goalVertex m)) (bestCost p) \<longrightarrow>
      bestCost p' = v_getCost env w (m_goalVertex m) \<and> hasSolution p'
      \<and> stopLoop = stopOnSolnChange p
      \<and> (\<exists>p3. bestCost p3 = bestCost p'
             \<and> run env m (q_setThreshold env (m_intQueue m) (bestCost p') w) p3 = ((), p', w'))"
    using solve_improved_better [of env m p w stopLoop p' w'] by auto
  have B: "solve_improved env m p w = (stopLoop, p', w')
      \<and> \<not> isCostBetterThan (v_getCost env w (m_goalVertex m)) (bestCost p) \<longrightarrow>
      p' = p \<and> w' = w \<and> \<not> stopLoop"
    using solve_improved_not_better [of env m p w stopLoop p' w'] by blast
  have C: "solve_iteration env m p w = (res, p', w') \<longrightarrow>
        (bestCost p' = bestCost p \<or> isCostBetterThan (bestCost p') (bestCost p))
      \<and> (bestCost p' \<noteq> bestCost p \<longrightarrow>
           (\<exists>w2. isCostBetterThan (v_getCost env w2 (m_goalVertex m)) (bestCost p)
              \<and> bestCost p' = v_getCost env w2 (m_goalVertex m))
           \<and> res = Inr (stopOnSolnChange p))
      \<and> (bestCost p' = bestCost p \<longrightarrow> res = Inr False \<or> (\<exists>a. res = Inl a))"
    using solve_iteration_progress [of env m p w res p' w']
    by (simp add: solution_progress_bestCost)
  have D: "solve_loop env ptc m fuel stopped p w = Some (out, p', w') \<longrightarrow>
        bestCost p' = bestCost p \<or> isCostBetterThan (bestCost p') (bestCost p)"
    using solve_loop_progress [of env ptc m fuel stopped p w out p' w']
    by (simp add: solution_progress_bestCost)
  have E: "solve_loop env ptc m (Suc fuel) True p w = Some (Inr (), p, w)" by simp
  show ?thesis
    by (intro conjI) (rule A, rule B, rule C, rule D, rule E)
qed


lemma toy_iteration:
  "solve_iteration toy toy_members toy_planner0 toy_world0 = (Inr False, toy_planner1, toy_world1)"
  by (simp add: solve_defs toy_defs)

lemma toy_improved:
  "solve_improved toy toy_members
      (toy_planner0\<lparr>numIterations := 1, numEdgeCollisionChecks := 1, numVertices := 2\<rparr>)
      (toy_world1\<lparr>tw_threshold := PosInf\<rparr>)
     = (False, toy_planner1, toy_world1)"
  by (simp add: solve_defs toy_defs)

lemma toy_not_improved:
  "solve_improved toy toy_members toy_planner1 toy_world1 = (False, toy_planner1, toy_world1)"
  by (simp add: solve_defs toy_defs)

lemma toy_loop:
  "solve_loop toy tw_stop toy_members 2 False (toy_planner0\<lparr>stopOnSolnChange := True\<rparr>) toy_world0
     = Some (Inr (), toy_planner1\<lparr>stopOnSolnChange := True\<rparr>, toy_world1)"
proof -
  have "solve_iteration toy toy_members (toy_planner0\<lparr>stopOnSolnChange := True\<rparr>) toy_world0
          = (Inr True, toy_planner1\<lparr>stopOnSolnChange := True\<rparr>, toy_world1)"
    by (simp add: solve_defs toy_defs)
  moreover have "\<not> opt_isSatisfied toy (m_opt toy_members) toy_world0
        (bestCost (toy_planner0\<lparr>stopOnSolnChange := True\<rparr>))
      \<and> \<not> tw_stop toy_world0
      \<and> isCostBetterThan (minCost (toy_planner0\<lparr>stopOnSolnChange := True\<rparr>))
           (bestCost (toy_planner0\<lparr>stopOnSolnChange := True\<rparr>))"
    by (simp add: isCostBetterThan_def toy_defs)
  ultimately show ?thesis
    by (simp add: numeral_2_eq_2)
qed


text \<open>In the small instance the first iteration adds the edge from the start to the goal: the
  best cost goes from infinity to 10, the threshold of the queue is 10, and with stopping on
  each improvement configured the loop ends after this iteration.\<close>

theorem best_cost_only_improves_witness:
  "solve_iteration toy toy_members toy_planner0 toy_world0 = (Inr False, toy_planner1, toy_world1)
   \<and> bestCost toy_planner0 = PosInf \<and> bestCost toy_planner1 = Fin 10
   \<and> isCostBetterThan (bestCost toy_planner1) (bestCost toy_planner0)
   \<and> v_getCost toy toy_world1 (m_goalVertex toy_members) = Fin 10
   \<and> tw_threshold toy_world1 = Fin 10
   \<and> stopOnSolnChange toy_planner0 = False
   \<and> solve_improved toy toy_members toy_planner1 toy_world1 = (False, toy_planner1, toy_world1)
   \<and> solve_loop toy tw_stop toy_members 2 False (toy_planner0\<lparr>stopOnSolnChange := True\<rparr>) toy_world0
       = Some (Inr (), toy_planner1\<lparr>stopOnSolnChange := True\<rparr>, toy_world1)"
proof -
  have f: "bestCost toy_planner0 = PosInf" "bestCost toy_planner1 = Fin 10"
    "v_getCost toy toy_world1 (m_goalVertex toy_members) = Fin 10"
    "tw_threshold toy_world1 = Fin 10" "stopOnSolnChange toy_planner0 = False"
    "v_getCost toy (toy_world1\<lparr>tw_threshold := PosInf\<rparr>) (m_goalVertex toy_members) = Fin 10"
    "bestCost (toy_planner0\<lparr>numIterations := 1, numEdgeCollisionChecks := 1, numVertices := 2\<rparr>)
       = PosInf"
    "bestCost (toy_planner1\<lparr>stopOnSolnChange := True\<rparr>) = Fin 10"
    "bestCost (toy_planner0\<lparr>stopOnSolnChange := True\<rparr>) = PosInf"
    by (simp_all add: toy_defs)
  note t1 = best_cost_only_improves [of toy toy_members
      "toy_planner0\<lparr>numIterations := 1, numEdgeCollisionChecks := 1, numVertices := 2\<rparr>"
      "toy_world1\<lparr>tw_threshold := PosInf\<rparr>" False toy_planner1 toy_world1 "Inr False"
      tw_stop 2 False "Inr ()"]
  note t2 = best_cost_only_improves [of toy toy_members toy_planner1 toy_world1 False toy_planner1
      toy_world1 "Inr False" tw_stop 2 False "Inr ()"]
  note t3 = best_cost_only_improves [of toy toy_members toy_planner0 toy_world0 False toy_planner1
      toy_world1 "Inr False" tw_stop 2 False "Inr ()"]
  note t4 = best_cost_only_improves [of toy toy_members "toy_planner0\<lparr>stopOnSolnChange := True\<rparr>"
      toy_world0 False "toy_planner1\<lparr>stopOnSolnChange := True\<rparr>" toy_world1 "Inr False"
      tw_stop 2 False "Inr ()"]
  show ?thesis
    using t1 t2 t3 t4 f toy_iteration toy_improved toy_not_improved toy_loop
    by (simp add: isCostBetterThan_def)
qed

subsection \<open>The status returned by \<^verbatim>\<open>solve\<close>\<close>

lemma bookkeeping_approximateSoln:
  "bookkeeping_only p p' \<Longrightarrow> approximateSoln p' = approximateSoln p \<and> hasSolution p' = hasSolution p"
  using bookkeeping_solution [of p p'] by (simp add: solution_members_def)

lemma initializeNearestTerms_keeps:
  "approximateSoln (initializeNearestTerms env m p w) = approximateSoln p
   \<and> hasSolution (initializeNearestTerms env m p w) = hasSolution p"
  by (simp add: initializeNearestTerms_def updateNearestTerms_def Let_def)

lemma addVertex_keeps:
  "addVertex env m v rf ue p w = (res, p', w') \<Longrightarrow>
     approximateSoln p' = approximateSoln p \<and> hasSolution p' = hasSolution p"
  by (rule bookkeeping_approximateSoln [OF addVertex_bookkeeping])

lemma setup_planner_keeps:
  assumes "setup_planner env p w = (res, p', w')"
  shows "approximateSoln p' = approximateSoln p \<and> hasSolution p' = hasSolution p"
proof (cases "pdef p")
  case None
  with assms show ?thesis by (auto simp: setup_planner_def Let_def)
next
  case (Some pd)
  show ?thesis
  proof (cases "pd_getStartStateCount env pd (Planner_setup env w) \<noteq> 1")
    case True
    with assms Some show ?thesis by (auto simp: setup_planner_def Let_def)
  next
    case False
    with assms Some show ?thesis
      by (auto simp: setup_planner_def Let_def initializeNearestTerms_keeps
          split: prod.splits sum.splits dest!: addVertex_keeps)
  qed
qed

lemma checkValidity_keeps:
  assumes "checkValidity env p w = (res, p', w')"
  shows "approximateSoln p' = approximateSoln p \<and> hasSolution p' = hasSolution p"
proof (cases "setup_flag p")
  case True
  with assms show ?thesis
    by (auto simp: checkValidity_def split: option.splits)
next
  case False
  obtain r1 p1 w1 where s: "setup_planner env p w = (r1, p1, w1)"
    by (cases "setup_planner env p w")
  have "p' = p1"
    using assms False s by (cases r1) (auto simp: checkValidity_def split: option.splits)
  with setup_planner_keeps [OF s] show ?thesis by simp
qed

lemma publishSolution_mono:
  "publishSolution env m fuel p w = Some w' \<Longrightarrow> publishSolution env m (fuel + n) p w = Some w'"
  by (auto simp: publishSolution_def split: option.splits dest: reversePath_mono [where n = n])

lemma solve_mono:
  assumes "solve env ptc fuel p w = Some x"
  shows "solve env ptc (fuel + n) p w = Some x"
proof -
  obtain r1 p1 w1 where c: "checkValidity env p w = (r1, p1, w1)"
    by (cases "checkValidity env p w")
  show ?thesis
  proof (cases r1)
    case (Inl a)
    with assms c show ?thesis by (simp add: solve_def)
  next
    case (Inr u)
    show ?thesis
    proof (cases "dereferenced p1")
      case None
      with assms c Inr show ?thesis by (simp add: solve_def)
    next
      case (Some m)
      from assms c Inr Some obtain r2 p2 w2 where
        l: "solve_loop env ptc m fuel False p1 w1 = Some (r2, p2, w2)"
        by (auto simp: solve_def split: option.splits)
      note l' = solve_loop_mono [OF l, of n]
      show ?thesis
      proof (cases r2)
        case (Inl a)
        with assms c Inr Some l l' show ?thesis by (simp add: solve_def)
      next
        case r2: (Inr u')
        show ?thesis
        proof (cases "hasSolution p2")
          case False
          with assms c Inr Some l l' r2 show ?thesis by (simp add: solve_def)
        next
          case True
          from assms c Inr Some l r2 True obtain w3 where
            pb: "publishSolution env m fuel p2 w2 = Some w3"
            by (auto simp: solve_def split: option.splits)
          note pb' = publishSolution_mono [OF pb, of n]
          from assms c Inr Some l l' r2 True pb pb' show ?thesis by (simp add: solve_def)
        qed
      qed
    qed
  qed
qed

lemma solve_keeps_exact:
  assumes "solve env ptc fuel p w = Some (res, p', w')" and "\<not> approximateSoln p"
  shows "\<not> approximateSoln p'"
proof -
  obtain r1 p1 w1 where c: "checkValidity env p w = (r1, p1, w1)"
    by (cases "checkValidity env p w")
  note k = checkValidity_keeps [OF c]
  show ?thesis
  proof (cases r1)
    case (Inl a)
    with assms c k show ?thesis by (simp add: solve_def)
  next
    case (Inr u)
    show ?thesis
    proof (cases "dereferenced p1")
      case None
      with assms c Inr k show ?thesis by (simp add: solve_def)
    next
      case (Some m)
      from assms c Inr Some obtain r2 w2 where
        l: "solve_loop env ptc m fuel False p1 w1 = Some (r2, p', w2)"
        by (auto simp: solve_def split: option.splits sum.splits if_splits)
      from solve_loop_progress [OF l] have "solution_progress p1 p'" by simp
      with k assms(2) show ?thesis
        by (auto simp: solution_progress_def solution_members_def)
    qed
  qed
qed

lemma solve_returned:
  assumes "solve env ptc fuel p w = Some (Inr (found, approximate), p', w')"
  shows "found = hasSolution p' \<and> approximate = approximateSoln p'
     \<and> (\<exists>p1 w1. checkValidity env p w = (Inr (), p1, w1)
           \<and> (found \<longleftrightarrow> hasSolution p \<or> isCostBetterThan (bestCost p') (bestCost p1)))
     \<and> (found \<longrightarrow> (\<exists>m w2. publishSolution env m fuel p' w2 = Some w'))"
proof -
  obtain r1 p1 w1 where c: "checkValidity env p w = (r1, p1, w1)"
    by (cases "checkValidity env p w")
  note k = checkValidity_keeps [OF c]
  from assms c obtain u where r1: "r1 = Inr u"
    by (cases r1) (auto simp: solve_def)
  from assms c r1 obtain m where m: "dereferenced p1 = Some m"
    by (cases "dereferenced p1") (auto simp: solve_def)
  from assms c r1 m obtain w2 where
    l: "solve_loop env ptc m fuel False p1 w1 = Some (Inr (), p', w2)"
    and f: "found = hasSolution p' \<and> approximate = approximateSoln p'"
    and pb: "hasSolution p' \<longrightarrow> publishSolution env m fuel p' w2 = Some w'"
    by (auto simp: solve_def split: option.splits sum.splits if_splits)
  from solve_loop_progress [OF l] have sp: "solution_progress p1 p'" by simp
  have "hasSolution p' \<longleftrightarrow> hasSolution p1 \<or> isCostBetterThan (bestCost p') (bestCost p1)"
    using sp by (auto simp: solution_progress_def solution_members_def isCostBetterThan_def
        dless_irrefl)
  then have iff: "found \<longleftrightarrow> hasSolution p \<or> isCostBetterThan (bestCost p') (bestCost p1)"
    using f k by simp
  have "checkValidity env p w = (Inr (), p1, w1)" using c r1 by simp
  with iff have ex: "\<exists>p1 w1. checkValidity env p w = (Inr (), p1, w1)
           \<and> (found \<longleftrightarrow> hasSolution p \<or> isCostBetterThan (bestCost p') (bestCost p1))"
    by blast
  show ?thesis using f ex pb by blast
qed


lemma solve_stopped:
  assumes "checkValidity env p w = (Inr (), pc, wc)" and "dereferenced pc = Some m"
    and "ptc wc" and "\<not> hasSolution p"
  shows "solve env ptc (Suc fuel) p w = Some (Inr (False, approximateSoln p), pc, wc)"
  using assms checkValidity_keeps [OF assms(1)] by (simp add: solve_def)


text \<open>
  Claim C7. Whenever \<^verbatim>\<open>solve\<close> returns, it returns the pair of \<^verbatim>\<open>hasSolution_\<close> and
  \<^verbatim>\<open>approximateSoln_\<close>. The first is true if and only if the planner held a solution before
  the call or found a better one during it, and then the path is published. The second is false:
  the constructor and \<^verbatim>\<open>clear()\<close> make \<^verbatim>\<open>approximateSoln_\<close> false, \<^verbatim>\<open>setup()\<close> keeps it
  and \<^verbatim>\<open>solve\<close> keeps it false, also when it ends with an exception. A result obtained with
  some bound on the iterations is the result with every larger bound, and when termination is
  requested as the loop is entered and no solution is held, \<^verbatim>\<open>solve\<close> returns at once.
\<close>

theorem solve_returns_exact_status:
  "(solve env ptc fuel p w = Some (Inr (found, approximate), p', w') \<longrightarrow>
      found = hasSolution p' \<and> approximate = approximateSoln p'
      \<and> (\<exists>p1 w1. checkValidity env p w = (Inr (), p1, w1)
            \<and> (found \<longleftrightarrow> hasSolution p \<or> isCostBetterThan (bestCost p') (bestCost p1)))
      \<and> (found \<longrightarrow> (\<exists>m w2. publishSolution env m fuel p' w2 = Some w')))
   \<and> (solve env ptc fuel p w = Some (Inr (found, approximate), p', w') \<and> \<not> approximateSoln p \<longrightarrow>
        \<not> approximate)
   \<and> (solve env ptc fuel p w = Some (out, p', w') \<and> \<not> approximateSoln p \<longrightarrow>
        \<not> approximateSoln p')
   \<and> (solve env ptc fuel p w = Some x \<longrightarrow> solve env ptc (fuel + n) p w = Some x)
   \<and> (checkValidity env p w = (Inr (), pc, wc) \<and> dereferenced pc = Some m \<and> ptc wc
        \<and> \<not> hasSolution p \<longrightarrow>
        solve env ptc (Suc fuel) p w = Some (Inr (False, approximateSoln p), pc, wc))
   \<and> \<not> approximateSoln BITstar_new
   \<and> \<not> approximateSoln (fst (clear env p w))
   \<and> (setup_planner env p w = (out', p1', w1') \<longrightarrow> approximateSoln p1' = approximateSoln p)"
proof -
  have A: "solve env ptc fuel p w = Some (Inr (found, approximate), p', w') \<longrightarrow>
      found = hasSolution p' \<and> approximate = approximateSoln p'
      \<and> (\<exists>p1 w1. checkValidity env p w = (Inr (), p1, w1)
            \<and> (found \<longleftrightarrow> hasSolution p \<or> isCostBetterThan (bestCost p') (bestCost p1)))
      \<and> (found \<longrightarrow> (\<exists>m w2. publishSolution env m fuel p' w2 = Some w'))"
    using solve_returned [of env ptc fuel p w found approximate p' w'] by blast
  have B: "solve env ptc fuel p w = Some (Inr (found, approximate), p', w') \<and> \<not> approximateSoln p
      \<longrightarrow> \<not> approximate"
    using solve_returned [of env ptc fuel p w found approximate p' w']
      solve_keeps_exact [of env ptc fuel p w "Inr (found, approximate)" p' w'] by blast
  have C: "solve env ptc fuel p w = Some (out, p', w') \<and> \<not> approximateSoln p \<longrightarrow>
        \<not> approximateSoln p'"
    using solve_keeps_exact [of env ptc fuel p w out p' w'] by blast
  have D: "solve env ptc fuel p w = Some x \<longrightarrow> solve env ptc (fuel + n) p w = Some x"
    using solve_mono [of env ptc fuel p w x n] by blast
  have H: "checkValidity env p w = (Inr (), pc, wc) \<and> dereferenced pc = Some m \<and> ptc wc
        \<and> \<not> hasSolution p \<longrightarrow>
        solve env ptc (Suc fuel) p w = Some (Inr (False, approximateSoln p), pc, wc)"
    using solve_stopped [of env p w pc wc m ptc fuel] by blast
  have E: "\<not> approximateSoln BITstar_new" by (simp add: BITstar_new_def)
  have F: "\<not> approximateSoln (fst (clear env p w))"
    by (simp add: clear_def Let_def split: option.splits prod.splits)
  have G: "setup_planner env p w = (out', p1', w1') \<longrightarrow> approximateSoln p1' = approximateSoln p"
    using setup_planner_keeps [of env p w out' p1' w1'] by blast
  show ?thesis
    by (intro conjI) (rule A, rule B, rule C, rule D, rule H, rule E, rule F, rule G)
qed

lemma toy_first_solve:
  "solve toy tw_stop 2 (BITstar_new\<lparr>pdef := Some 6, stopOnSolnChange := True\<rparr>) toy_world_new
     = Some (Inr (True, False),
             toy_planner1\<lparr>stopOnSolnChange := True, numNearestNeighbours := 1\<rparr>,
             toy_world_setup
               \<lparr>tw_vertices :=
                  [toy_fresh True, (toy_sample 10)\<lparr>tv_parent := Some 0, tv_cost := Fin 10\<rparr>],
                tw_unexpanded := [1],
                tw_threshold := Fin 10,
                tw_samples := [],
                tw_tree := [1, 0],
                tw_solutions :=
                  [\<lparr>sol_path = [Some (OfVertex 0), Some (OfVertex 1)], sol_approximate = None,
                    sol_optimized = False\<rparr>]\<rparr>)"
proof -
  let ?p = "toy_planner0\<lparr>stopOnSolnChange := True\<rparr>"
  let ?p' = "toy_planner1\<lparr>stopOnSolnChange := True, numNearestNeighbours := 1\<rparr>"
  let ?w' = "toy_world_setup
               \<lparr>tw_vertices :=
                  [toy_fresh True, (toy_sample 10)\<lparr>tv_parent := Some 0, tv_cost := Fin 10\<rparr>],
                tw_unexpanded := [1],
                tw_threshold := Fin 10,
                tw_samples := [],
                tw_tree := [1, 0]\<rparr>"
  have c: "checkValidity toy (BITstar_new\<lparr>pdef := Some 6, stopOnSolnChange := True\<rparr>) toy_world_new
             = (Inr (), ?p, toy_world_setup)"
    by (simp add: checkValidity_def setup_defs toy_defs)
  have m: "dereferenced ?p = Some toy_members"
    by (simp add: dereferenced_def toy_defs)
  have i: "solve_iteration toy toy_members ?p toy_world_setup = (Inr True, ?p', ?w')"
    by (simp add: solve_defs nearestSamples_def updateSamples_def toy_defs)
  have g: "\<not> opt_isSatisfied toy (m_opt toy_members) toy_world_setup (bestCost ?p)
      \<and> \<not> tw_stop toy_world_setup \<and> isCostBetterThan (minCost ?p) (bestCost ?p)"
    by (simp add: isCostBetterThan_def toy_defs)
  have l: "solve_loop toy tw_stop toy_members 2 False ?p toy_world_setup = Some (Inr (), ?p', ?w')"
    using i g by (simp add: numeral_2_eq_2)
  have r: "reversePath toy ?w' 2 (Some (m_goalVertex toy_members)) = Some [1, 0]"
    by (simp add: numeral_2_eq_2 toy_defs)
  have pb: "publishSolution toy toy_members 2 ?p' ?w'
             = Some (?w'\<lparr>tw_solutions :=
                  [\<lparr>sol_path = [Some (OfVertex 0), Some (OfVertex 1)], sol_approximate = None,
                    sol_optimized = False\<rparr>]\<rparr>)"
    unfolding publishSolution_def r by (simp add: toy_defs)
  have h: "hasSolution ?p'" "\<not> approximateSoln ?p'"
    by (simp_all add: toy_defs)
  show ?thesis
    unfolding solve_def c
    by (simp only: prod.case sum.case option.case m l pb h if_True)
qed

lemma toy_stopped:
  "checkValidity toy (BITstar_new\<lparr>pdef := Some 6\<rparr>) (toy_world_new\<lparr>tw_stop := True\<rparr>)
     = (Inr (), toy_planner0, toy_world_setup\<lparr>tw_stop := True\<rparr>)"
  by (simp add: checkValidity_def setup_defs toy_defs)


text \<open>In the small instance a planner is constructed, given the problem and told to stop on
  each improvement: \<^verbatim>\<open>solve\<close> sets it up, expands the start, adds the edge to the goal,
  returns (true, false) and publishes the path from the start to the goal. When termination is
  requested from the beginning, it returns (false, false) after setting the planner up.\<close>

theorem solve_returns_exact_status_witness:
  "solve toy tw_stop 2 (BITstar_new\<lparr>pdef := Some 6, stopOnSolnChange := True\<rparr>) toy_world_new
     = Some (Inr (True, False),
             toy_planner1\<lparr>stopOnSolnChange := True, numNearestNeighbours := 1\<rparr>,
             toy_world_setup
               \<lparr>tw_vertices :=
                  [toy_fresh True, (toy_sample 10)\<lparr>tv_parent := Some 0, tv_cost := Fin 10\<rparr>],
                tw_unexpanded := [1],
                tw_threshold := Fin 10,
                tw_samples := [],
                tw_tree := [1, 0],
                tw_solutions :=
                  [\<lparr>sol_path = [Some (OfVertex 0), Some (OfVertex 1)], sol_approximate = None,
                    sol_optimized = False\<rparr>]\<rparr>)
   \<and> solve toy tw_stop (2 + 5) (BITstar_new\<lparr>pdef := Some 6, stopOnSolnChange := True\<rparr>)
        toy_world_new
       = solve toy tw_stop 2 (BITstar_new\<lparr>pdef := Some 6, stopOnSolnChange := True\<rparr>)
           toy_world_new
   \<and> solve toy tw_stop (Suc 0) (BITstar_new\<lparr>pdef := Some 6\<rparr>) (toy_world_new\<lparr>tw_stop := True\<rparr>)
       = Some (Inr (False, False), toy_planner0, toy_world_setup\<lparr>tw_stop := True\<rparr>)
   \<and> setup_planner toy (BITstar_new\<lparr>pdef := Some 6\<rparr>) toy_world_new
       = (Inr (), toy_planner0, toy_world_setup)
   \<and> approximateSoln toy_planner0 = False"
proof -
  let ?p = "BITstar_new\<lparr>pdef := Some 6, stopOnSolnChange := True\<rparr>"
  let ?p' = "toy_planner1\<lparr>stopOnSolnChange := True, numNearestNeighbours := 1\<rparr>"
  let ?w' = "toy_world_setup
               \<lparr>tw_vertices :=
                  [toy_fresh True, (toy_sample 10)\<lparr>tv_parent := Some 0, tv_cost := Fin 10\<rparr>],
                tw_unexpanded := [1],
                tw_threshold := Fin 10,
                tw_samples := [],
                tw_tree := [1, 0],
                tw_solutions :=
                  [\<lparr>sol_path = [Some (OfVertex 0), Some (OfVertex 1)], sol_approximate = None,
                    sol_optimized = False\<rparr>]\<rparr>"
  have f: "\<not> approximateSoln ?p" "\<not> hasSolution ?p"
    "\<not> approximateSoln (BITstar_new\<lparr>pdef := Some 6\<rparr>)"
    "\<not> hasSolution (BITstar_new\<lparr>pdef := Some 6\<rparr>)"
    "dereferenced toy_planner0 = Some toy_members"
    "tw_stop (toy_world_setup\<lparr>tw_stop := True\<rparr>)"
    by (simp_all add: dereferenced_def toy_defs)
  note t = solve_returns_exact_status [where env = toy and ptc = tw_stop and fuel = 2
      and p = ?p and w = toy_world_new and found = True and approximate = False and p' = ?p'
      and w' = ?w' and out = "Inr (True, False)" and x = "(Inr (True, False), ?p', ?w')" and n = 5]
  note u = solve_returns_exact_status [where env = toy and ptc = tw_stop and fuel = 0
      and p = "BITstar_new\<lparr>pdef := Some 6\<rparr>" and w = "toy_world_new\<lparr>tw_stop := True\<rparr>"
      and pc = toy_planner0 and wc = "toy_world_setup\<lparr>tw_stop := True\<rparr>" and m = toy_members]
  note v = solve_returns_exact_status [where env = toy
      and p = "BITstar_new\<lparr>pdef := Some 6\<rparr>" and w = toy_world_new
      and out' = "Inr ()" and p1' = toy_planner0 and w1' = toy_world_setup]
  have a: "solve toy tw_stop (2 + 5) ?p toy_world_new = Some (Inr (True, False), ?p', ?w')"
    by (rule mp [OF t [THEN conjunct2, THEN conjunct2, THEN conjunct2, THEN conjunct1]
          toy_first_solve])
  have "solve toy tw_stop (Suc 0) (BITstar_new\<lparr>pdef := Some 6\<rparr>) (toy_world_new\<lparr>tw_stop := True\<rparr>)
       = Some (Inr (False, approximateSoln (BITstar_new\<lparr>pdef := Some 6\<rparr>)), toy_planner0,
               toy_world_setup\<lparr>tw_stop := True\<rparr>)"
    using u [THEN conjunct2, THEN conjunct2, THEN conjunct2, THEN conjunct2, THEN conjunct1]
      toy_stopped f(4,5,6) by blast
  then have b: "solve toy tw_stop (Suc 0) (BITstar_new\<lparr>pdef := Some 6\<rparr>)
        (toy_world_new\<lparr>tw_stop := True\<rparr>)
       = Some (Inr (False, False), toy_planner0, toy_world_setup\<lparr>tw_stop := True\<rparr>)"
    using f(3) by simp
  have "approximateSoln toy_planner0 = approximateSoln (BITstar_new\<lparr>pdef := Some 6\<rparr>)"
    using v [THEN conjunct2, THEN conjunct2, THEN conjunct2, THEN conjunct2, THEN conjunct2,
        THEN conjunct2, THEN conjunct2] toy_setup by blast
  then have c: "approximateSoln toy_planner0 = False"
    using f(3) by simp
  show ?thesis
    using toy_first_solve a b toy_setup c by (simp only: simp_thms)
qed

end
